theory Spec2Isabelle
  imports Complex_Main "HOL-Library.Sublist"
begin

section \<open>Numbers\<close>

text \<open>
  The program computes with JavaScript numbers. They are modelled as mathematical reals:
  rounding and signed zeros are not represented. The one non-finite value the source
  produces on purpose is \<^verbatim>\<open>Infinity\<close>, the sentinel of the time solvers for "never
  reached"; it is a constructor of its own. Two unguarded singularities that a flight
  can meet are modelled by cases of their own: the division by the speed in the
  atmospheric ascent and the pole of the half-angle tangent at apoapsis. Other inputs on
  which the source would divide by zero, take the square root of a negative number or
  otherwise leave the finite numbers (a vehicle at the planet's centre, a zero mass, a
  target altitude equal to the atmosphere limit) are outside the model: there a HOL
  term still has some real value (\<open>x / 0 = 0\<close>) where the source has none.
\<close>

datatype jsnum = Finite real | Infinity

fun isFinite :: "jsnum \<Rightarrow> bool" where
  "isFinite (Finite _) = True"
| "isFinite Infinity = False"

text \<open>\<^verbatim>\<open>t <= c\<close> for a possibly infinite \<open>t\<close> and a finite \<open>c\<close>.\<close>

fun js_le :: "jsnum \<Rightarrow> real \<Rightarrow> bool" where
  "js_le (Finite t) c = (t \<le> c)"
| "js_le Infinity c = False"

text \<open>\<^verbatim>\<open>Math.atan2(y, x)\<close> on reals (no signed zero: \<^verbatim>\<open>atan2(0, 0)\<close> is \<open>0\<close>).\<close>

definition atan2 :: "real \<Rightarrow> real \<Rightarrow> real" where
  "atan2 b a =
     (if a > 0 then arctan (b / a)
      else if a < 0 then (if b \<ge> 0 then arctan (b / a) + pi else arctan (b / a) - pi)
      else if b > 0 then pi / 2
      else if b < 0 then - (pi / 2)
      else 0)"

section \<open>Constants (constants.js)\<close>

definition G :: real where "G = 6.67430 / 10 ^ 11"
definition EARTH_MASS :: real where "EARTH_MASS = 5.972 * 10 ^ 24"
definition EARTH_RADIUS :: real where "EARTH_RADIUS = 6371000"
definition KARMAN_LINE :: real where "KARMAN_LINE = 100000"

record stage =
  stage_name :: string
  dryMass :: real
  propellantMass :: real
  thrust :: real
  thrustVac :: real
  isp :: real
  ispVac :: real
  diameter :: real
  stage_length :: real
  dragCoeff :: real

record rocket_config =
  stages :: "stage list"
  payload :: real
  fairingMass :: real
  fairingJettisonAlt :: real
  totalLength :: real

definition ROCKET_CONFIG :: rocket_config where
  "ROCKET_CONFIG =
     \<lparr> stages =
         [ \<lparr> stage_name = ''Stage 1'', dryMass = 22200, propellantMass = 395700,
             thrust = 7607000, thrustVac = 8227000, isp = 282, ispVac = 311,
             diameter = 3.7, stage_length = 47, dragCoeff = 0.3 \<rparr>,
           \<lparr> stage_name = ''Stage 2'', dryMass = 4000, propellantMass = 92670,
             thrust = 981000, thrustVac = 981000, isp = 348, ispVac = 348,
             diameter = 3.7, stage_length = 14, dragCoeff = 0.25 \<rparr> ],
       payload = 15000, fairingMass = 1700, fairingJettisonAlt = 110000,
       totalLength = 70 \<rparr>"

text \<open>
  \<^verbatim>\<open>GUIDANCE_CONFIG\<close> is an exported object whose fields the rest of the application may
  set (the target altitude is a mission parameter), so every function below takes the
  configuration as an argument; \<open>GUIDANCE_CONFIG\<close> is the value the source file gives it.
\<close>

record guidance_config =
  targetAltitude :: real
  atmosphereLimit :: real
  maxQ :: real
  maxPitchCorrection :: real
  maxPitchRate :: real
  throttleDownMargin :: real
  minThrottle :: real
  initialPitch :: real
  pitchKickStart :: real
  pitchKickEnd :: real

definition GUIDANCE_CONFIG :: guidance_config where
  "GUIDANCE_CONFIG =
     \<lparr> targetAltitude = 700000, atmosphereLimit = 70000, maxQ = 35000,
       maxPitchCorrection = 10, maxPitchRate = 2, throttleDownMargin = 1.15,
       minThrottle = 0.4, initialPitch = 85, pitchKickStart = 3, pitchKickEnd = 15 \<rparr>"

section \<open>Vehicle state, orbit elements and external collaborators\<close>

text \<open>An entry of the mission log \<^verbatim>\<open>state.events\<close>.\<close>

record log_entry =
  log_time :: string
  log_text :: string

text \<open>
  The vehicle state of \<^verbatim>\<open>state.js\<close>, with the fields the three source files read.
  A field that may be \<^verbatim>\<open>undefined\<close> or \<^verbatim>\<open>null\<close> is an option.
\<close>

record vstate =
  x_pos :: real
  y_pos :: real
  vx :: real
  vy :: real
  time :: real
  currentStage :: nat
  propellantRemaining :: "real list"
  engineOn :: bool
  burnMode :: "string option"
  guidanceThrottle :: "real option"
  guidancePitch :: "real option"
  fairingJettisoned :: bool
  events :: "log_entry list"

record orbit =
  apoapsis :: real
  periapsis :: real
  semiMajorAxis :: real
  eccentricity :: real
  isEscape :: bool

text \<open>
  The functions imported from \<^verbatim>\<open>state.js\<close>, \<^verbatim>\<open>physics.js\<close> and \<^verbatim>\<open>orbital.js\<close> are not
  part of the sources at hand. They are parameters of the model. Those that read the
  global vehicle state in the source take it as their first argument here.
\<close>

record externals =
  getAltitude :: "vstate \<Rightarrow> real"
  getTotalMass :: "vstate \<Rightarrow> real"
  getAtmosphericDensity :: "real \<Rightarrow> real"
  getAirspeed :: "vstate \<Rightarrow> real"
  getGravity :: "real \<Rightarrow> real"
  getCurrentThrust :: "vstate \<Rightarrow> real \<Rightarrow> real \<Rightarrow> real"
  getDrag :: "vstate \<Rightarrow> real \<Rightarrow> real \<Rightarrow> real"
  getMassFlowRate :: "vstate \<Rightarrow> real \<Rightarrow> real \<Rightarrow> real"
  predictOrbit :: "vstate \<Rightarrow> orbit"
  computeRemainingDeltaV :: "vstate \<Rightarrow> real"

section \<open>Local frame\<close>

definition radius :: "vstate \<Rightarrow> real" where
  "radius s = sqrt (x_pos s * x_pos s + y_pos s * y_pos s)"

definition localUp :: "vstate \<Rightarrow> real \<times> real" where
  "localUp s = (x_pos s / radius s, y_pos s / radius s)"

definition localEast :: "vstate \<Rightarrow> real \<times> real" where
  "localEast s = (snd (localUp s), - fst (localUp s))"

definition vVertical :: "vstate \<Rightarrow> real" where
  "vVertical s = vx s * fst (localUp s) + vy s * snd (localUp s)"

definition vHorizontal :: "vstate \<Rightarrow> real" where
  "vHorizontal s = vx s * fst (localEast s) + vy s * snd (localEast s)"

definition speed :: "vstate \<Rightarrow> real" where
  "speed s = sqrt (vx s * vx s + vy s * vy s)"

definition flightPathAngle :: "vstate \<Rightarrow> real" where
  "flightPathAngle s = atan2 (vVertical s) (vHorizontal s) * 180 / pi"

section \<open>Time to apoapsis and periapsis (events.js)\<close>

definition orbitalPeriod :: "real \<Rightarrow> real \<Rightarrow> real" where
  "orbitalPeriod a mu = 2 * pi * sqrt ((a * a * a) / mu)"

text \<open>
  The steps both solvers share: true anomaly from the orbit equation, with the branch
  chosen by the sign of \<open>r \<cdot> v\<close>, then the eccentric anomaly brought into \<open>[0, 2\<pi>]\<close>.
\<close>

definition trueAnomaly :: "real \<Rightarrow> vstate \<Rightarrow> real" where
  "trueAnomaly cosTheta s =
     (let rDotV = x_pos s * vx s + y_pos s * vy s
      in if rDotV \<ge> 0 then arccos cosTheta else 2 * pi - arccos cosTheta)"

text \<open>
  The half-angle tangent has a pole where \<open>cos (theta / 2) = 0\<close>; for the true anomalies
  above, which lie in \<open>[0, 2\<pi>]\<close>, that is at \<open>theta = \<pi>\<close>, the apoapsis. The source
  does not guard it: \<^verbatim>\<open>Math.tan(Math.PI / 2)\<close> is a large positive number, the scaled
  value stays large, and \<^verbatim>\<open>2 * Math.atan\<close> of it is \<open>\<pi>\<close>. The model returns \<open>\<pi>\<close> at the
  pole, the limit from below, and not what HOL's total \<open>tan\<close> would give there.
\<close>

definition eccentricAnomaly :: "real \<Rightarrow> real \<Rightarrow> real" where
  "eccentricAnomaly e theta =
     (if cos (theta / 2) = 0 then pi
      else
        let tanHalfTheta = tan (theta / 2);
            tanHalfE = sqrt ((1 - e) / (1 + e)) * tanHalfTheta;
            E = 2 * arctan tanHalfE
        in if E < 0 then E + 2 * pi else E)"

definition calculateTimeToApoapsis :: "orbit \<Rightarrow> vstate \<Rightarrow> real \<Rightarrow> jsnum" where
  "calculateTimeToApoapsis orb s mu =
     (if isEscape orb \<or> eccentricity orb \<ge> 1 \<or> semiMajorAxis orb \<le> 0 then Infinity
      else
        let e = eccentricity orb; a = semiMajorAxis orb in
        if e < 1 / 1000000 then Finite (orbitalPeriod a mu / 2)
        else
          let r = radius s;
              p = a * (1 - e * e);
              cosTheta0 = (p / r - 1) / e;
              cosTheta1 = (if \<bar>cosTheta0\<bar> > 1.001 then max (- 1) (min 1 cosTheta0)
                           else cosTheta0);
              cosTheta = max (- 1) (min 1 cosTheta1);
              theta = trueAnomaly cosTheta s;
              E = eccentricAnomaly e theta;
              M = E - e * sin E;
              T = orbitalPeriod a mu
          in if M \<le> pi then Finite ((pi - M) / (2 * pi) * T)
             else Finite ((2 * pi + pi - M) / (2 * pi) * T))"

definition calculateTimeToPeriapsis :: "orbit \<Rightarrow> vstate \<Rightarrow> real \<Rightarrow> jsnum" where
  "calculateTimeToPeriapsis orb s mu =
     (if isEscape orb \<or> eccentricity orb \<ge> 1 \<or> semiMajorAxis orb \<le> 0 then Infinity
      else
        let e = eccentricity orb; a = semiMajorAxis orb in
        if e < 1 / 1000000 then Finite (orbitalPeriod a mu / 2)
        else
          let r = radius s;
              p = a * (1 - e * e);
              cosTheta0 = (p / r - 1) / e;
              cosTheta = max (- 1) (min 1 cosTheta0);
              theta = trueAnomaly cosTheta s;
              E = eccentricAnomaly e theta;
              M = E - e * sin E;
              T = orbitalPeriod a mu
          in if theta < pi then Finite ((2 * pi - M) / (2 * pi) * T)
             else Finite ((2 * pi - M) / (2 * pi) * T))"

section \<open>Guidance state (guidance.js)\<close>

record guidance_state =
  phase :: string
  lastCommandedPitch :: real
  throttle :: real
  lastFlightPathAngle :: real
  lastPeriapsis :: real
  lastApoapsis :: real
  isRetrograde :: bool
  circularizationBurnStarted :: bool
  retrogradeBurnStarted :: bool

text \<open>The value \<^verbatim>\<open>resetGuidance()\<close> assigns, which is also the initial value of the variable.\<close>

definition resetGuidance :: guidance_state where
  "resetGuidance =
     \<lparr> phase = ''pre-launch'', lastCommandedPitch = 90, throttle = 1,
       lastFlightPathAngle = 90, lastPeriapsis = 0, lastApoapsis = 0,
       isRetrograde = False, circularizationBurnStarted = False,
       retrogradeBurnStarted = False \<rparr>"

text \<open>
  What \<^verbatim>\<open>computeGuidance\<close> returns, without the free-form \<^verbatim>\<open>debug\<close> object (diagnostic
  numbers and formatted strings that no control decision reads).
\<close>

record guidance_result =
  pitch :: real
  thrustDir :: "real \<times> real"
  throttle_r :: real
  phase_r :: string
  orbit_r :: orbit
  velocityDeficit :: real
  remainingDeltaV :: real

section \<open>Atmospheric phases (guidance.js, lines 100-240)\<close>

definition dynamicPressure :: "externals \<Rightarrow> vstate \<Rightarrow> real \<Rightarrow> real" where
  "dynamicPressure ext s altitude =
     (let airDensity = getAtmosphericDensity ext altitude;
          airspeed = getAirspeed ext s
      in 0.5 * airDensity * airspeed * airspeed)"

definition pitchKickPitch :: "guidance_config \<Rightarrow> vstate \<Rightarrow> real" where
  "pitchKickPitch cfg s =
     (let progress = (time s - pitchKickStart cfg) / (pitchKickEnd cfg - pitchKickStart cfg);
          smoothProgress = (1 - cos (progress * pi)) / 2
      in 90 - smoothProgress * (90 - initialPitch cfg))"

text \<open>
  The atmospheric ascent (lines 134-238). The natural turn rate divides by the speed
  without a guard. At zero speed the quotient is \<^verbatim>\<open>Infinity\<close>, \<^verbatim>\<open>-Infinity\<close> or
  \<^verbatim>\<open>NaN\<close> in the source, by the sign of \<open>g cos \<gamma>\<close>, and the turn-rate excess is
  \<^verbatim>\<open>-Infinity\<close> (no correction), \<^verbatim>\<open>Infinity\<close> (the correction is its cap of 5) or
  \<^verbatim>\<open>NaN\<close> (the comparison is false: no correction); the excess is read nowhere
  else. The model has these three outcomes as a case of its own.
\<close>

definition atmosphericAscentPitch ::
  "externals \<Rightarrow> guidance_config \<Rightarrow> vstate \<Rightarrow> real \<Rightarrow> guidance_state \<Rightarrow> real \<Rightarrow> real" where
  "atmosphericAscentPitch ext cfg s dt gs altitude =
     (let fpa = flightPathAngle s;
          altitudeFraction = min 1 (altitude / atmosphereLimit cfg);
          minPitchForAltitude = 90 - altitudeFraction * altitudeFraction * 80;
          basePitch = fpa;
          g = getGravity ext (radius s);
          gamma = fpa * pi / 180;
          actualTurnRate = (if dt > 0 then (lastFlightPathAngle gs - fpa) / dt else 0);
          correction1 =
            (if speed s = 0 then (if g * cos gamma < 0 then 5 else 0)
             else
               let naturalTurnRate = (g * cos gamma / speed s) * 180 / pi;
                   turnRateExcess = actualTurnRate - naturalTurnRate
               in if turnRateExcess > 0.5 then min 5 (turnRateExcess * 2) else 0);
          correction2 =
            (if basePitch + correction1 < minPitchForAltitude
             then correction1 + (minPitchForAltitude - (basePitch + correction1)) * 0.3
             else correction1);
          targetAboveAtmo = targetAltitude cfg - atmosphereLimit cfg;
          minVVerticalAtExit = 200 + (targetAboveAtmo / 1000) * 0.5;
          proximityToExit = max 0 ((altitude - 50000) / 20000);
          currentMinVVertical = minVVerticalAtExit * proximityToExit;
          vVerticalCorrection = min 15 ((currentMinVVertical - vVertical s) / 20);
          correction3 =
            (if proximityToExit > 0.3 \<and> vVertical s < currentMinVVertical
                \<and> vVerticalCorrection > 2
             then correction2 + vVerticalCorrection else correction2)
      in max minPitchForAltitude (basePitch + correction3))"

text \<open>
  The branch below the atmosphere limit: phase, commanded pitch, throttle (left at its
  initial \<open>1.0\<close>) and the guidance state, in which only the atmospheric-ascent case
  stores the flight-path angle.
\<close>

definition atmosphereGuidance ::
  "externals \<Rightarrow> guidance_config \<Rightarrow> vstate \<Rightarrow> real \<Rightarrow> guidance_state \<Rightarrow> real
     \<Rightarrow> (string \<times> real \<times> real) \<times> guidance_state" where
  "atmosphereGuidance ext cfg s dt gs altitude =
     (if time s < pitchKickStart cfg then ((''vertical-ascent'', 90, 1), gs)
      else if time s < pitchKickEnd cfg then ((''pitch-kick'', pitchKickPitch cfg s, 1), gs)
      else if dynamicPressure ext s altitude > maxQ cfg * 0.8
        then ((''max-q-protection'', flightPathAngle s, 1), gs)
      else ((''atmospheric-ascent'', atmosphericAscentPitch ext cfg s dt gs altitude, 1),
            gs\<lparr>lastFlightPathAngle := flightPathAngle s\<rparr>))"

section \<open>Vacuum guidance (guidance.js, lines 246-713)\<close>

definition startingFPA :: "guidance_config \<Rightarrow> real" where
  "startingFPA cfg =
     (let targetAboveAtmo = targetAltitude cfg - atmosphereLimit cfg
      in max 10 (min 50 (10 + targetAboveAtmo / 50000)))"

definition profileExponent :: "guidance_config \<Rightarrow> real" where
  "profileExponent cfg =
     (let targetAboveAtmo = targetAltitude cfg - atmosphereLimit cfg
      in max 0.5 (min 1.5 (1.5 - targetAboveAtmo / 3000000)))"

definition progressToTarget :: "guidance_config \<Rightarrow> real \<Rightarrow> real" where
  "progressToTarget cfg altitude =
     (let targetAboveAtmo = targetAltitude cfg - atmosphereLimit cfg;
          altitudeAboveAtmo = max 0 (altitude - atmosphereLimit cfg)
      in min 1 (altitudeAboveAtmo / targetAboveAtmo))"

text \<open>\<^verbatim>\<open>Math.pow\<close> is \<open>powr\<close>: the base \<open>1 - progress\<close> is never negative.\<close>

definition baseFPA :: "guidance_config \<Rightarrow> real \<Rightarrow> real" where
  "baseFPA cfg altitude =
     max (- 5) (startingFPA cfg * (1 - progressToTarget cfg altitude) powr profileExponent cfg)"

definition predictedFinalPeriapsis :: "guidance_config \<Rightarrow> orbit \<Rightarrow> real \<Rightarrow> real" where
  "predictedFinalPeriapsis cfg orb altitude =
     (let avgProgress = (progressToTarget cfg altitude + 1) / 2;
          averageFPA = max (- 5) (startingFPA cfg * (1 - avgProgress) powr profileExponent cfg);
          avgFPARad = \<bar>averageFPA\<bar> * pi / 180;
          expectedGainRatio = (if avgFPARad > 0.01 then cos avgFPARad / sin avgFPARad else 10);
          apoapsisToGain = max 0 (targetAltitude cfg - apoapsis orb);
          expectedPeriapsisGain = apoapsisToGain * expectedGainRatio
      in periapsis orb + expectedPeriapsisGain)"

definition periapsisSafetyBias :: "guidance_config \<Rightarrow> orbit \<Rightarrow> real \<Rightarrow> guidance_state \<Rightarrow> real" where
  "periapsisSafetyBias cfg orb dt gs =
     (let SAFE_PERIAPSIS = atmosphereLimit cfg + 30000;
          previous = (if lastPeriapsis gs = 0 then periapsis orb else lastPeriapsis gs);
          periapsisChangeRate = (periapsis orb - previous) / max 0.01 dt
      in if periapsis orb < SAFE_PERIAPSIS then
           (if periapsisChangeRate > 500 then 0
            else if periapsisChangeRate > 100 then 2
            else if periapsisChangeRate > - 100 then 5
            else min 15 (5 + (- periapsisChangeRate) / 200))
           + (if periapsis orb < - 200000 then 5 else 0)
         else 0)"

definition predictionBias :: "guidance_config \<Rightarrow> orbit \<Rightarrow> real \<Rightarrow> real" where
  "predictionBias cfg orb altitude =
     (let SAFE_PERIAPSIS = atmosphereLimit cfg + 30000;
          TARGET = targetAltitude cfg;
          apoapsisToGain = max 0 (TARGET - apoapsis orb);
          predicted = predictedFinalPeriapsis cfg orb altitude
      in if predicted < SAFE_PERIAPSIS \<and> apoapsisToGain > 5000
           then - min 15 ((SAFE_PERIAPSIS - predicted) / 10000)
         else if predicted > TARGET * 1.1 \<and> apoapsisToGain > 5000
           then min 5 ((predicted - TARGET) / 50000)
         else 0)"

definition targetFlightPathAngle ::
  "guidance_config \<Rightarrow> orbit \<Rightarrow> real \<Rightarrow> real \<Rightarrow> guidance_state \<Rightarrow> real" where
  "targetFlightPathAngle cfg orb altitude dt gs =
     max 0 (baseFPA cfg altitude + periapsisSafetyBias cfg orb dt gs
            + predictionBias cfg orb altitude)"

text \<open>Case 1 of the ladder (apoapsis too low): pitch correction and throttle.\<close>

definition raisingApoapsisCorrection :: "real \<Rightarrow> real \<Rightarrow> real" where
  "raisingApoapsisCorrection predBias fpaError =
     (if \<bar>predBias\<bar> > 5 then - fpaError
      else if fpaError > 5 then - min 10 (fpaError * 0.5)
      else if fpaError < - 5 then min 5 (- fpaError * 0.3)
      else 0)"

definition raisingApoapsisThrottle :: "guidance_config \<Rightarrow> orbit \<Rightarrow> real" where
  "raisingApoapsisThrottle cfg orb =
     (let SAFE_PERIAPSIS = atmosphereLimit cfg + 30000;
          apoapsisError = apoapsis orb - targetAltitude cfg
      in if periapsis orb < SAFE_PERIAPSIS then 1
         else let deficit = - apoapsisError
              in if deficit < 50000 then max 0.2 (deficit / 50000) else 1)"

text \<open>Case 2 (apoapsis on target, periapsis low): the same correction with a 3 degree band.\<close>

definition buildingPeriapsisCorrection :: "real \<Rightarrow> real \<Rightarrow> real" where
  "buildingPeriapsisCorrection predBias fpaError =
     (if \<bar>predBias\<bar> > 5 then - fpaError
      else if fpaError > 3 then - min 10 (fpaError * 0.5)
      else if fpaError < - 3 then min 5 (- fpaError * 0.3)
      else 0)"

text \<open>Case 4 (both apsides safe, periapsis below target): coast, then burn around apoapsis.\<close>

definition circularizationBurnTime :: "externals \<Rightarrow> vstate \<Rightarrow> real \<Rightarrow> real" where
  "circularizationBurnTime ext s circDeltaV =
     (if currentStage s < length (stages ROCKET_CONFIG) \<and> circDeltaV > 0 then
        let stg = stages ROCKET_CONFIG ! currentStage s;
            currentMass = getTotalMass ext s;
            thrust = thrustVac stg
        in if thrust > 0 then circDeltaV * currentMass / thrust else 0
      else 0)"

definition coastingToCirc ::
  "externals \<Rightarrow> guidance_config \<Rightarrow> vstate \<Rightarrow> orbit \<Rightarrow> real \<Rightarrow> string \<times> real \<times> real" where
  "coastingToCirc ext cfg s orb altitude =
     (let mu = G * EARTH_MASS;
          SAFE_PERIAPSIS = atmosphereLimit cfg + 30000;
          periapsisError = periapsis orb - targetAltitude cfg;
          isAscending = vVertical s > 0;
          r_apo = EARTH_RADIUS + apoapsis orb;
          v_circular = sqrt (mu / r_apo);
          v_at_apo = sqrt (mu * (2 / r_apo - 1 / semiMajorAxis orb));
          circDeltaV = max 0 (v_circular - v_at_apo);
          burnTime = circularizationBurnTime ext s circDeltaV;
          t0 = calculateTimeToApoapsis orb s mu;
          timeToApoapsis =
            (if \<not> isFinite t0 \<or> js_le t0 0 then
               (if isAscending \<and> apoapsis orb > altitude
                then Finite ((apoapsis orb - altitude) / max 1 (vVertical s))
                else Infinity)
             else t0);
          burnStartOffset = burnTime / 2;
          shouldBurn = (isFinite timeToApoapsis \<and> burnTime > 0
                        \<and> js_le timeToApoapsis burnStartOffset
                        \<and> periapsis orb \<ge> SAFE_PERIAPSIS)
      in if shouldBurn then
           (let periDeficit = - periapsisError
            in (''circularizing'', flightPathAngle s,
                if periapsis orb < SAFE_PERIAPSIS then 1
                else if periDeficit < 30000 then max 0.1 (periDeficit / 30000) else 1))
         else (''coasting-to-circ'', flightPathAngle s, 0))"

text \<open>
  The case ladder, in the source's order: phase, commanded pitch before the clamp, and
  throttle. The tolerance is the source's \<^verbatim>\<open>1000\<close>.
\<close>

definition vacuumCases ::
  "externals \<Rightarrow> guidance_config \<Rightarrow> vstate \<Rightarrow> real \<Rightarrow> guidance_state \<Rightarrow> real
     \<Rightarrow> string \<times> real \<times> real" where
  "vacuumCases ext cfg s dt gs altitude =
     (let orb = predictOrbit ext s;
          SAFE_PERIAPSIS = atmosphereLimit cfg + 30000;
          apoapsisError = apoapsis orb - targetAltitude cfg;
          periapsisError = periapsis orb - targetAltitude cfg;
          tolerance = 1000;
          fpa = flightPathAngle s;
          predBias = predictionBias cfg orb altitude;
          fpaError = fpa - targetFlightPathAngle cfg orb altitude dt gs
      in if periapsis orb < 0 \<and> apoapsisError \<ge> - tolerance then
           (''emergency-raise-periapsis'', max 0 (fpa - 15), 1)
         else if apoapsisError < - tolerance then
           (''raising-apoapsis'', fpa + raisingApoapsisCorrection predBias fpaError,
            raisingApoapsisThrottle cfg orb)
         else if periapsis orb < SAFE_PERIAPSIS then
           (''building-periapsis'',
            max 0 (fpa + buildingPeriapsisCorrection predBias fpaError), 1)
         else if apoapsisError > tolerance then
           (''apoapsis-too-high'', fpa, 0)
         else if periapsisError < - tolerance then
           coastingToCirc ext cfg s orb altitude
         else (''orbit-achieved'', fpa, 0))"

text \<open>
  The branch at or above the atmosphere limit. It clears the retrograde flag, stores the
  predicted periapsis for the next tick's rise-rate estimate, and clamps its pitch.
\<close>

definition vacuumGuidance ::
  "externals \<Rightarrow> guidance_config \<Rightarrow> vstate \<Rightarrow> real \<Rightarrow> guidance_state \<Rightarrow> real
     \<Rightarrow> (string \<times> real \<times> real) \<times> guidance_state" where
  "vacuumGuidance ext cfg s dt gs altitude =
     (case vacuumCases ext cfg s dt gs altitude of
        (ph, commandedPitch, commandedThrottle) \<Rightarrow>
          ((ph, max (- 5) (min 90 commandedPitch), commandedThrottle),
           gs\<lparr>isRetrograde := False, lastPeriapsis := periapsis (predictOrbit ext s)\<rparr>))"

section \<open>Constraints and thrust vector (guidance.js, lines 715-780)\<close>

definition rateLimit :: "guidance_config \<Rightarrow> real \<Rightarrow> real \<Rightarrow> real \<Rightarrow> real" where
  "rateLimit cfg dt lastPitch commandedPitch =
     (if dt > 0 then
        let maxChange = maxPitchRate cfg * dt;
            desiredChange = commandedPitch - lastPitch
        in if \<bar>desiredChange\<bar> > maxChange then lastPitch + sgn desiredChange * maxChange
           else commandedPitch
      else commandedPitch)"

definition normalizeDir :: "real \<times> real \<Rightarrow> real \<times> real" where
  "normalizeDir d =
     (let mag = sqrt (fst d * fst d + snd d * snd d)
      in if mag > 0 then (fst d / mag, snd d / mag) else d)"

definition pitchDir :: "vstate \<Rightarrow> real \<Rightarrow> real \<times> real" where
  "pitchDir s commandedPitch =
     (let pitchRad = commandedPitch * pi / 180
      in (cos pitchRad * fst (localEast s) + sin pitchRad * fst (localUp s),
          cos pitchRad * snd (localEast s) + sin pitchRad * snd (localUp s)))"

definition retrogradeDir :: "vstate \<Rightarrow> real \<times> real" where
  "retrogradeDir s =
     (let velocityMag = sqrt (vx s * vx s + vy s * vy s)
      in if velocityMag > 0 then (- vx s / velocityMag, - vy s / velocityMag)
         else (- fst (localEast s), - snd (localEast s)))"

section \<open>The guidance tick\<close>

text \<open>Step 4 of the source, the priority ladder: the atmosphere comes first.\<close>

definition priorityGuidance ::
  "externals \<Rightarrow> guidance_config \<Rightarrow> vstate \<Rightarrow> real \<Rightarrow> guidance_state
     \<Rightarrow> (string \<times> real \<times> real) \<times> guidance_state" where
  "priorityGuidance ext cfg s dt gs =
     (let altitude = radius s - EARTH_RADIUS
      in if altitude < atmosphereLimit cfg
         then atmosphereGuidance ext cfg s dt gs altitude
         else vacuumGuidance ext cfg s dt gs altitude)"

definition computeGuidance ::
  "externals \<Rightarrow> guidance_config \<Rightarrow> vstate \<Rightarrow> real \<Rightarrow> guidance_state
     \<Rightarrow> guidance_result \<times> guidance_state" where
  "computeGuidance ext cfg s dt gs =
     (let orb = predictOrbit ext s;
          targetRadius = EARTH_RADIUS + targetAltitude cfg;
          mu = G * EARTH_MASS;
          vCircular = sqrt (mu / targetRadius)
      in case priorityGuidance ext cfg s dt gs of
           ((ph, commandedPitch0, commandedThrottle), gs1) \<Rightarrow>
             let commandedPitch1 = max (- 5) (min 90 commandedPitch0);
                 commandedPitch = rateLimit cfg dt (lastCommandedPitch gs1) commandedPitch1;
                 gs2 = gs1\<lparr>lastCommandedPitch := commandedPitch, phase := ph,
                           throttle := commandedThrottle\<rparr>;
                 dir = (if isRetrograde gs2 then retrogradeDir s else pitchDir s commandedPitch)
             in (\<lparr> pitch = commandedPitch, thrustDir = normalizeDir dir,
                   throttle_r = commandedThrottle, phase_r = ph, orbit_r = orb,
                   velocityDeficit = vCircular - vHorizontal s,
                   remainingDeltaV = computeRemainingDeltaV ext s \<rparr>, gs2))"

text \<open>
  A run of the controller: the driver calls \<^verbatim>\<open>computeGuidance\<close> once per tick, each call
  starting from the guidance state the previous one left. The results come back in
  order, with the final guidance state.
\<close>

fun runGuidance ::
  "externals \<Rightarrow> guidance_config \<Rightarrow> guidance_state \<Rightarrow> (vstate \<times> real) list
     \<Rightarrow> guidance_result list \<times> guidance_state" where
  "runGuidance ext cfg gs [] = ([], gs)"
| "runGuidance ext cfg gs ((s, dt) # ticks) =
     (case computeGuidance ext cfg s dt gs of
        (res, gs') \<Rightarrow>
          (case runGuidance ext cfg gs' ticks of (rs, gs'') \<Rightarrow> (res # rs, gs'')))"

section \<open>Kinematic time to an altitude (events.js, lines 182-273)\<close>

text \<open>\<^verbatim>\<open>state.guidanceThrottle !== undefined ? state.guidanceThrottle : 1.0\<close>\<close>

definition currentThrottle :: "vstate \<Rightarrow> real" where
  "currentThrottle s = (case guidanceThrottle s of Some t \<Rightarrow> t | None \<Rightarrow> 1)"

text \<open>A burn mode is set when the field is neither missing nor the empty string.\<close>

definition burnModeSet :: "vstate \<Rightarrow> bool" where
  "burnModeSet s = (case burnMode s of None \<Rightarrow> False | Some m \<Rightarrow> m \<noteq> [])"

definition thrustVertical :: "externals \<Rightarrow> vstate \<Rightarrow> real \<Rightarrow> real" where
  "thrustVertical ext s currentAltitude =
     (if engineOn s \<and> currentStage s < length (stages ROCKET_CONFIG) then
        let thr = currentThrottle s;
            thrustNow = getCurrentThrust ext s currentAltitude thr;
            mass = getTotalMass ext s;
            thrustAccel = thrustNow / mass;
            up = localUp s;
            dir =
              (if burnModeSet s then
                 let velocity = speed s in
                 if velocity > 0 then
                   let prograde = (vx s / velocity, vy s / velocity) in
                   if burnMode s = Some ''prograde'' then prograde
                   else if burnMode s = Some ''retrograde''
                     then (- fst prograde, - snd prograde)
                   else prograde
                 else up
               else
                 let pitchDeg = (case guidancePitch s of Some p \<Rightarrow> p | None \<Rightarrow> 90)
                 in pitchDir s pitchDeg)
        in thrustAccel * (fst dir * fst up + snd dir * snd up)
      else 0)"

definition dragVertical :: "externals \<Rightarrow> vstate \<Rightarrow> real \<Rightarrow> real" where
  "dragVertical ext s currentAltitude =
     (let airspeed = getAirspeed ext s in
      if airspeed > 0 then
        let drag = getDrag ext s currentAltitude airspeed;
            mass = getTotalMass ext s;
            dragAccel = drag / mass;
            velocity = speed s;
            up = localUp s
        in if velocity > 0 then
             let velDir = (vx s / velocity, vy s / velocity);
                 dragDirVert = - (fst velDir * fst up + snd velDir * snd up)
             in dragAccel * dragDirVert
           else 0
      else 0)"

definition calculateTimeToAltitude ::
  "externals \<Rightarrow> vstate \<Rightarrow> real \<Rightarrow> real \<Rightarrow> real \<Rightarrow> jsnum" where
  "calculateTimeToAltitude ext s currentAltitude targetAlt vVert =
     (let altitudeDiff = targetAlt - currentAltitude in
      if altitudeDiff \<le> 0 then Infinity
      else if vVert \<le> 0 then Infinity
      else
        let gVert = - getGravity ext (radius s);
            aVert = gVert + thrustVertical ext s currentAltitude
                          + dragVertical ext s currentAltitude
        in if \<bar>aVert\<bar> < 0.01 then Finite (altitudeDiff / vVert)
           else
             let discriminant = vVert * vVert + 2 * aVert * altitudeDiff in
             if discriminant < 0 then Infinity
             else let t = (- vVert + sqrt discriminant) / aVert
                  in if t > 0 then Finite t else Infinity)"

section \<open>Burn events and their latched start times (events.js, lines 289-514)\<close>

datatype burn_type = circularization | retrograde

text \<open>
  An entry of a forecast list. The entries \<^verbatim>\<open>getNextEvent\<close> builds itself carry a time and
  a name only; burn events also carry a type and two figures the source sets to \<open>0\<close>.
\<close>

record event =
  time_ev :: real
  name_ev :: string
  type_ev :: "burn_type option"
  burnTime_ev :: "real option"
  deltaV_ev :: "real option"

definition burnEvent :: "real \<Rightarrow> string \<Rightarrow> burn_type \<Rightarrow> event" where
  "burnEvent t n ty =
     \<lparr> time_ev = t, name_ev = n, type_ev = Some ty, burnTime_ev = Some 0, deltaV_ev = Some 0 \<rparr>"

definition plainEvent :: "real \<Rightarrow> string \<Rightarrow> event" where
  "plainEvent t n =
     \<lparr> time_ev = t, name_ev = n, type_ev = None, burnTime_ev = None, deltaV_ev = None \<rparr>"

text \<open>The two module-level variables; \<open>None\<close> is \<^verbatim>\<open>null\<close>.\<close>

record latches =
  absoluteBurnStartTime :: "real option"
  absoluteRetrogradeBurnStartTime :: "real option"

definition circularizationDeltaV :: "vstate \<Rightarrow> orbit \<Rightarrow> real" where
  "circularizationDeltaV s orb =
     (let mu = G * EARTH_MASS;
          r_apo = EARTH_RADIUS + apoapsis orb;
          v_circular = sqrt (mu / r_apo);
          v_at_apo = (if semiMajorAxis orb > 0
                      then sqrt (mu * (2 / r_apo - 1 / semiMajorAxis orb))
                      else speed s)
      in max 0 (v_circular - v_at_apo))"

definition useDirectAscent :: "guidance_config \<Rightarrow> real \<Rightarrow> real \<Rightarrow> bool" where
  "useDirectAscent cfg burnT apoError =
     (targetAltitude cfg < 250000 \<or> (burnT > 0 \<and> burnT > 60 \<and> apoError < 10000))"

text \<open>Engine off, ascending, below apoapsis (lines 348-382).\<close>

definition coastingCountdown ::
  "vstate \<Rightarrow> orbit \<Rightarrow> real \<Rightarrow> real option \<Rightarrow> event list \<times> real option" where
  "coastingCountdown s orb burnT latch =
     (let mu = G * EARTH_MASS;
          latch1 =
            (case latch of
               None \<Rightarrow>
                 (case calculateTimeToApoapsis orb s mu of
                    Finite calculatedTimeToApo \<Rightarrow>
                      if calculatedTimeToApo > 0
                      then Some (time s + calculatedTimeToApo - burnT / 2) else None
                  | Infinity \<Rightarrow> None)
             | Some v \<Rightarrow> Some v);
          timeUntilBurnStart =
            (case latch1 of Some v \<Rightarrow> Finite (v - time s) | None \<Rightarrow> Infinity);
          latch2 =
            (case latch1 of
               Some v \<Rightarrow> if v - time s \<le> 0 then None else Some v
             | None \<Rightarrow> None)
      in (case timeUntilBurnStart of
            Finite t \<Rightarrow>
              if t > 0 \<and> t < 10000
              then [burnEvent t ''Circularization burn start'' circularization] else []
          | Infinity \<Rightarrow> [],
          latch2))"

text \<open>Engine on, ascending, below apoapsis (lines 383-427).\<close>

definition thrustingTimeToApoapsis ::
  "externals \<Rightarrow> vstate \<Rightarrow> orbit \<Rightarrow> real \<Rightarrow> jsnum" where
  "thrustingTimeToApoapsis ext s orb altitude =
     (let mu = G * EARTH_MASS;
          altitudeToApoapsis = apoapsis orb - altitude;
          t0 = calculateTimeToApoapsis orb s mu
      in if \<not> isFinite t0 \<or> js_le t0 0 then
           (let vVert = vVertical s in
            if vVert > 0 then
              (let t1 = calculateTimeToAltitude ext s altitude (apoapsis orb) vVert
               in if \<not> isFinite t1 \<or> js_le t1 0
                  then Finite (altitudeToApoapsis / max 1 (vVertical s)) else t1)
            else t0)
         else t0)"

definition thrustingCountdown ::
  "externals \<Rightarrow> vstate \<Rightarrow> orbit \<Rightarrow> real \<Rightarrow> real \<Rightarrow> real option
     \<Rightarrow> event list \<times> real option" where
  "thrustingCountdown ext s orb burnT altitude latch =
     (let latch1 =
            (case latch of
               None \<Rightarrow>
                 (case thrustingTimeToApoapsis ext s orb altitude of
                    Finite timeToApoapsis \<Rightarrow>
                      if timeToApoapsis > 0 \<and> timeToApoapsis > burnT / 2
                      then Some (time s + timeToApoapsis - burnT / 2) else None
                  | Infinity \<Rightarrow> None)
             | Some v \<Rightarrow> Some v)
      in case latch1 of
           None \<Rightarrow> ([], None)
         | Some v \<Rightarrow>
             let timeUntilBurnStart = v - time s in
             if timeUntilBurnStart > 0 \<and> timeUntilBurnStart < 10000
               then ([burnEvent timeUntilBurnStart ''Circularization burn start''
                        circularization], Some v)
             else if timeUntilBurnStart \<le> 0 then ([], None)
             else ([], Some v))"

text \<open>
  The traditional strategy (lines 342-431): the guard of the circularization phase, the
  two countdown branches inside it, and the reset of the latch outside it.
\<close>

definition circularizationPhase :: "guidance_config \<Rightarrow> vstate \<Rightarrow> orbit \<Rightarrow> real \<Rightarrow> bool" where
  "circularizationPhase cfg s orb burnT =
     (let tolerance = 10000;
          apoError = apoapsis orb - targetAltitude cfg;
          periError = periapsis orb - targetAltitude cfg
      in \<not> useDirectAscent cfg burnT apoError \<and> time s \<ge> 1500
         \<and> periError < - tolerance \<and> apoError \<ge> - tolerance)"

definition traditionalStrategy ::
  "externals \<Rightarrow> guidance_config \<Rightarrow> vstate \<Rightarrow> orbit \<Rightarrow> real \<Rightarrow> real \<Rightarrow> real option
     \<Rightarrow> event list \<times> real option" where
  "traditionalStrategy ext cfg s orb burnT altitude latch =
     (if circularizationPhase cfg s orb burnT then
        let isAscending = vVertical s > 0;
            altitudeToApoapsis = apoapsis orb - altitude
        in if \<not> engineOn s \<and> isAscending \<and> altitudeToApoapsis > 0
             then coastingCountdown s orb burnT latch
           else if engineOn s \<and> isAscending \<and> altitudeToApoapsis > 0
             then thrustingCountdown ext s orb burnT altitude latch
           else ([], latch)
      else ([], None))"

text \<open>The retrograde burn at periapsis (lines 447-511).\<close>

definition retrogradeBurnTime :: "externals \<Rightarrow> guidance_config \<Rightarrow> vstate \<Rightarrow> orbit \<Rightarrow> real" where
  "retrogradeBurnTime ext cfg s orb =
     (let mu = G * EARTH_MASS;
          r_peri = EARTH_RADIUS + periapsis orb;
          r_target = EARTH_RADIUS + targetAltitude cfg;
          a_target = (r_peri + r_target) / 2;
          v_peri_target = sqrt (mu * (2 / r_peri - 1 / a_target));
          v_at_peri = (if semiMajorAxis orb > 0
                       then sqrt (mu * (2 / r_peri - 1 / semiMajorAxis orb))
                       else speed s);
          retrogradeDeltaV = max 0 (v_at_peri - v_peri_target)
      in if currentStage s < length (stages ROCKET_CONFIG) \<and> retrogradeDeltaV > 0 then
           let stg = stages ROCKET_CONFIG ! currentStage s;
               currentMass = getTotalMass ext s;
               thrustV = thrustVac stg
           in if thrustV > 0 then retrogradeDeltaV * currentMass / thrustV else 0
         else 0)"

definition retrogradeTimeToPeriapsis :: "vstate \<Rightarrow> orbit \<Rightarrow> real \<Rightarrow> jsnum" where
  "retrogradeTimeToPeriapsis s orb altitude =
     (let mu = G * EARTH_MASS;
          isAscending = vVertical s > 0;
          altitudeToPeriapsis = altitude - periapsis orb;
          t0 = calculateTimeToPeriapsis orb s mu
      in if \<not> isFinite t0 \<or> js_le t0 0 then
           (if \<not> isAscending \<and> altitudeToPeriapsis > 0
            then Finite (altitudeToPeriapsis / max 1 (- vVertical s)) else t0)
         else t0)"

definition retrogradeStrategy ::
  "externals \<Rightarrow> guidance_config \<Rightarrow> vstate \<Rightarrow> orbit \<Rightarrow> real \<Rightarrow> real option
     \<Rightarrow> event list \<times> real option" where
  "retrogradeStrategy ext cfg s orb altitude latch =
     (let tolerance = 10000;
          apoError = apoapsis orb - targetAltitude cfg;
          periError = periapsis orb - targetAltitude cfg
      in if periError \<ge> - tolerance \<and> apoError > tolerance then
           (let latch1 =
                  (case latch of
                     None \<Rightarrow>
                       (let burnStartTimeBeforePeri = retrogradeBurnTime ext cfg s orb / 2
                        in case retrogradeTimeToPeriapsis s orb altitude of
                             Finite timeToPeriapsis \<Rightarrow>
                               if timeToPeriapsis > 0 \<and> timeToPeriapsis > burnStartTimeBeforePeri
                               then Some (time s + timeToPeriapsis - burnStartTimeBeforePeri)
                               else None
                           | Infinity \<Rightarrow> None)
                   | Some v \<Rightarrow> Some v)
            in case latch1 of
                 None \<Rightarrow> ([], None)
               | Some v \<Rightarrow>
                   let timeUntilBurnStart = v - time s in
                   if timeUntilBurnStart > 0 \<and> timeUntilBurnStart < 10000
                     then ([burnEvent timeUntilBurnStart ''Retrograde burn start'' retrograde],
                           Some v)
                   else if timeUntilBurnStart \<le> 0 then ([], None)
                   else ([], Some v))
         else ([], None))"

text \<open>
  \<^verbatim>\<open>calculateBurnEvents()\<close>: the forecast list and the two latches as the call leaves
  them. Below the atmosphere limit it returns at once, touching neither latch.
\<close>

definition calculateBurnEvents ::
  "externals \<Rightarrow> guidance_config \<Rightarrow> vstate \<Rightarrow> latches \<Rightarrow> event list \<times> latches" where
  "calculateBurnEvents ext cfg s L =
     (let altitude = getAltitude ext s in
      if altitude < atmosphereLimit cfg then ([], L)
      else
        let orb = predictOrbit ext s;
            burnT = circularizationBurnTime ext s (circularizationDeltaV s orb)
        in case traditionalStrategy ext cfg s orb burnT altitude (absoluteBurnStartTime L) of
             (events1, latch1) \<Rightarrow>
               (case retrogradeStrategy ext cfg s orb altitude
                       (absoluteRetrogradeBurnStartTime L) of
                  (events2, latch2) \<Rightarrow>
                    (events1 @ events2,
                     \<lparr> absoluteBurnStartTime = latch1,
                       absoluteRetrogradeBurnStartTime = latch2 \<rparr>)))"

section \<open>The next event (events.js, lines 517-610)\<close>

text \<open>
  The word the log is searched for (Karman, with an acute accent on each a), one
  character per code unit (\<open>0xE1\<close> is the accented a), and the test
  \<^verbatim>\<open>state.events.some(e => e.text.includes(...))\<close>.
\<close>

definition karmanWord :: string where
  "karmanWord = [CHR ''K'', CHR 0xE1, CHR ''r'', CHR ''m'', CHR 0xE1, CHR ''n'']"

definition karmanLogged :: "vstate \<Rightarrow> bool" where
  "karmanLogged s = (\<exists>e \<in> set (events s). sublist karmanWord (log_text e))"

text \<open>\<^verbatim>\<open>state.propellantRemaining[i] > 0\<close>; a missing entry compares false.\<close>

definition propellantLeft :: "vstate \<Rightarrow> nat \<Rightarrow> bool" where
  "propellantLeft s i = (i < length (propellantRemaining s) \<and> propellantRemaining s ! i > 0)"

text \<open>An altitude threshold ahead: the Karman line and fairing jettison forecasts.\<close>

definition thresholdEvent :: "externals \<Rightarrow> vstate \<Rightarrow> real \<Rightarrow> real \<Rightarrow> string \<Rightarrow> event list" where
  "thresholdEvent ext s altitude threshold n =
     (let vVert = vVertical s in
      if vVert > 0 then
        (case calculateTimeToAltitude ext s altitude threshold vVert of
           Finite t \<Rightarrow> if t > 0 \<and> t < 10000 then [plainEvent t n] else []
         | Infinity \<Rightarrow> [])
      else [])"

text \<open>Propellant of stage \<open>i\<close> running out: stage separation (\<open>i = 0\<close>) and SECO (\<open>i = 1\<close>).\<close>

definition depletionEvent :: "externals \<Rightarrow> vstate \<Rightarrow> real \<Rightarrow> nat \<Rightarrow> string \<Rightarrow> event list" where
  "depletionEvent ext s altitude i n =
     (if currentStage s = i \<and> propellantLeft s i \<and> engineOn s then
        let massFlowRate = getMassFlowRate ext s altitude (currentThrottle s) in
        if massFlowRate > 0 then
          let t = propellantRemaining s ! i / massFlowRate
          in if t > 0 \<and> t < 10000 then [plainEvent t n] else []
        else []
      else [])"

definition orbitEvent :: "externals \<Rightarrow> vstate \<Rightarrow> real \<Rightarrow> event list" where
  "orbitEvent ext s altitude =
     (let inOrbit = (altitude \<ge> 150000 \<and> \<not> engineOn s) in
      if \<not> inOrbit \<and> altitude < 150000 then
        let vVert = vVertical s in
        if vVert > 0 then
          (case calculateTimeToAltitude ext s altitude 150000 vVert of
             Finite timeToOrbit \<Rightarrow>
               if timeToOrbit > 0 \<and> timeToOrbit < 10000 then
                 let totalTime =
                       (if engineOn s \<and> currentStage s < length (stages ROCKET_CONFIG) then
                          let massFlowRate = getMassFlowRate ext s altitude (currentThrottle s) in
                          if massFlowRate > 0 \<and> propellantLeft s (currentStage s) then
                            let timeToBurnout =
                                  propellantRemaining s ! currentStage s / massFlowRate
                            in max timeToOrbit timeToBurnout
                          else timeToOrbit
                        else timeToOrbit)
                 in [plainEvent totalTime ''Orbit'']
               else []
           | Infinity \<Rightarrow> [])
        else []
      else [])"

text \<open>
  All forecasts in the order the source pushes them. \<^verbatim>\<open>calculateBurnEvents\<close> runs after
  the others, and its effect on the latches is part of the result.
\<close>

definition forecastEvents ::
  "externals \<Rightarrow> guidance_config \<Rightarrow> vstate \<Rightarrow> latches \<Rightarrow> event list \<times> latches" where
  "forecastEvents ext cfg s L =
     (let altitude = getAltitude ext s;
          pitchProgram =
            (if time s < 10 then [plainEvent (10 - time s) ''Pitch program start''] else []);
          karman =
            (if altitude < KARMAN_LINE \<and> \<not> karmanLogged s
             then thresholdEvent ext s altitude KARMAN_LINE (karmanWord @ '' line'') else []);
          fairing =
            (if \<not> fairingJettisoned s \<and> altitude < fairingJettisonAlt ROCKET_CONFIG
             then thresholdEvent ext s altitude (fairingJettisonAlt ROCKET_CONFIG)
                    ''Fairing jettison''
             else []);
          separation = depletionEvent ext s altitude 0 ''Stage separation'';
          inOrbit = orbitEvent ext s altitude;
          seco = depletionEvent ext s altitude 1 ''SECO''
      in case calculateBurnEvents ext cfg s L of
           (burnEvents, L') \<Rightarrow>
             (pitchProgram @ karman @ fairing @ separation @ inOrbit @ seco @ burnEvents, L'))"

text \<open>
  \<^verbatim>\<open>events.sort((a, b) => a.time - b.time)\<close> is a stable sort on the time, and the first
  entry is returned; \<open>None\<close> is \<^verbatim>\<open>null\<close>.
\<close>

definition getNextEvent ::
  "externals \<Rightarrow> guidance_config \<Rightarrow> vstate \<Rightarrow> latches \<Rightarrow> event option \<times> latches" where
  "getNextEvent ext cfg s L =
     (case forecastEvents ext cfg s L of
        (evs, L') \<Rightarrow>
          (case sort_key time_ev evs of [] \<Rightarrow> None | e # _ \<Rightarrow> Some e, L'))"

text \<open>
  Two conditions of the traditional strategy by name: the burn time the strategy is
  selected with, and the test both countdown branches share (\<^verbatim>\<open>isAscending\<close> and
  \<^verbatim>\<open>altitudeToApoapsis > 0\<close>).
\<close>

definition phaseBurnTime :: "externals \<Rightarrow> vstate \<Rightarrow> real" where
  "phaseBurnTime ext s =
     circularizationBurnTime ext s (circularizationDeltaV s (predictOrbit ext s))"

definition climbingToApoapsis :: "vstate \<Rightarrow> orbit \<Rightarrow> real \<Rightarrow> bool" where
  "climbingToApoapsis s orb altitude = (vVertical s > 0 \<and> apoapsis orb - altitude > 0)"

text \<open>
  What is asked of the pitch commands of a run, given the command \<open>prev\<close> that preceded
  the first tick: each lies between \<open>-5\<close> and \<open>90\<close> degrees, and on a tick of positive
  duration it differs from the command before it by at most the pitch rate times the
  duration.
\<close>

fun pitchWithinLimits ::
  "guidance_config \<Rightarrow> real \<Rightarrow> (guidance_result \<times> vstate \<times> real) list \<Rightarrow> bool" where
  "pitchWithinLimits cfg prev [] = True"
| "pitchWithinLimits cfg prev ((r, s, dt) # rest) =
     (- 5 \<le> pitch r \<and> pitch r \<le> 90
      \<and> (dt > 0 \<longrightarrow> \<bar>pitch r - prev\<bar> \<le> maxPitchRate cfg * dt)
      \<and> pitchWithinLimits cfg (pitch r) rest)"

section \<open>Concrete inputs\<close>

text \<open>
  A vehicle on the positive x axis, \<open>alt\<close> metres above the surface, at mission time
  \<open>t\<close>, climbing at \<open>vUp\<close> and moving east at \<open>vEast\<close>. There the local up direction
  is \<open>(1, 0)\<close> and local east is \<open>(0, -1)\<close>. The second stage burns at one percent
  throttle, pitched to the horizon.
\<close>

definition exampleState :: "real \<Rightarrow> real \<Rightarrow> real \<Rightarrow> real \<Rightarrow> vstate" where
  "exampleState alt t vUp vEast =
     \<lparr> x_pos = EARTH_RADIUS + alt, y_pos = 0, vx = vUp, vy = - vEast, time = t,
       currentStage = 1, propellantRemaining = [0, 60000], engineOn = True,
       burnMode = None, guidanceThrottle = Some 0.01, guidancePitch = Some 0,
       fairingJettisoned = True, events = [] \<rparr>"

text \<open>
  Collaborators with fixed answers: the altitude is measured from the surface as the
  guidance does, the air has the given density and the vehicle the given airspeed, and
  the orbit predictor answers \<open>orb\<close>.
\<close>

definition exampleExternals :: "real \<Rightarrow> real \<Rightarrow> orbit \<Rightarrow> externals" where
  "exampleExternals density airspeed orb =
     \<lparr> getAltitude = (\<lambda>s. radius s - EARTH_RADIUS),
       getTotalMass = (\<lambda>_. 100000),
       getAtmosphericDensity = (\<lambda>_. density),
       getAirspeed = (\<lambda>_. airspeed),
       getGravity = (\<lambda>_. 9.375),
       getCurrentThrust = (\<lambda>_ _ thr. 981000 * thr),
       getDrag = (\<lambda>_ _ _. 0),
       getMassFlowRate = (\<lambda>_ _ thr. 300 * thr),
       predictOrbit = (\<lambda>_. orb),
       computeRemainingDeltaV = (\<lambda>_. 3000) \<rparr>"

definition circularOrbit :: orbit where
  "circularOrbit =
     \<lparr> apoapsis = 700000, periapsis = 700000, semiMajorAxis = 7071000,
       eccentricity = 0, isEscape = False \<rparr>"

text \<open>An orbit that reaches the target altitude and comes down through the ground.\<close>

definition suborbitalOrbit :: orbit where
  "suborbitalOrbit =
     \<lparr> apoapsis = 700000, periapsis = - 3000000, semiMajorAxis = 5221000,
       eccentricity = 0.3543, isEscape = False \<rparr>"

definition noLatches :: latches where
  "noLatches = \<lparr> absoluteBurnStartTime = None, absoluteRetrogradeBurnStartTime = None \<rparr>"

text \<open>A mission to a 150 km orbit, and an orbit that already reaches past it.\<close>

definition lowTargetConfig :: guidance_config where
  "lowTargetConfig = GUIDANCE_CONFIG\<lparr>targetAltitude := 150000\<rparr>"

definition lowTargetOrbit :: orbit where
  "lowTargetOrbit =
     \<lparr> apoapsis = 160000, periapsis = - 4000000, semiMajorAxis = 4451000,
       eccentricity = 0.4673, isEscape = False \<rparr>"

text \<open>Apoapsis 12 km above the 700 km target, periapsis at 200 km.\<close>

definition transferOrbit :: orbit where
  "transferOrbit =
     \<lparr> apoapsis = 712000, periapsis = 200000, semiMajorAxis = 6827000,
       eccentricity = 0.0375, isEscape = False \<rparr>"

section \<open>Time solvers on near-circular orbits\<close>

text \<open>
  Claim C2. On a closed orbit (no escape) with eccentricity below one millionth
  and positive semi-major axis \<open>a\<close>, both \<open>calculateTimeToApoapsis\<close> and
  \<open>calculateTimeToPeriapsis\<close> return half the period \<open>T = 2 * pi * sqrt (a ^ 3 / mu)\<close>,
  whatever the vehicle's position and velocity.
\<close>

theorem near_circular_half_period:
  assumes "\<not> isEscape orb" and "eccentricity orb < 1 / 1000000" and "semiMajorAxis orb > 0"
  shows "calculateTimeToApoapsis orb s mu
           = Finite (2 * pi * sqrt (semiMajorAxis orb ^ 3 / mu) / 2)
       \<and> calculateTimeToPeriapsis orb s mu
           = Finite (2 * pi * sqrt (semiMajorAxis orb ^ 3 / mu) / 2)"
  using assms
  by (simp add: calculateTimeToApoapsis_def calculateTimeToPeriapsis_def orbitalPeriod_def
        power3_eq_cube Let_def)

theorem near_circular_half_period_witness:
  "\<not> isEscape circularOrbit \<and> eccentricity circularOrbit < 1 / 1000000
   \<and> semiMajorAxis circularOrbit > 0
   \<and> calculateTimeToApoapsis circularOrbit (exampleState 700000 3000 0 7500) (G * EARTH_MASS)
        = Finite (2 * pi * sqrt (7071000 ^ 3 / (G * EARTH_MASS)) / 2)
   \<and> calculateTimeToPeriapsis circularOrbit (exampleState 700000 3000 0 7500) (G * EARTH_MASS)
        = Finite (2 * pi * sqrt (7071000 ^ 3 / (G * EARTH_MASS)) / 2)"
proof -
  have h: "\<not> isEscape circularOrbit" "eccentricity circularOrbit < 1 / 1000000"
    "semiMajorAxis circularOrbit > 0"
    by (simp_all add: circularOrbit_def)
  have a: "semiMajorAxis circularOrbit = 7071000"
    by (simp add: circularOrbit_def)
  show ?thesis
    using h near_circular_half_period [OF h, of "exampleState 700000 3000 0 7500"
        "G * EARTH_MASS"]
    unfolding a by simp
qed

section \<open>Starting flight-path angle of the vacuum profile\<close>

text \<open>
  Claim C6. The claim, and the comment above the source line, give the starting angle as
  10 degrees plus 1 degree per 15 km of target altitude above the atmosphere, clamped to
  \<open>[10, 50]\<close>. The source line divides by 50000, not 15000: for the configured target of
  700 km the code starts the profile at 22.6 degrees where the claimed formula gives 50.
\<close>

theorem startingFPA_default_config:
  "startingFPA GUIDANCE_CONFIG = 22.6
   \<and> max 10 (min 50 (10 + (targetAltitude GUIDANCE_CONFIG - atmosphereLimit GUIDANCE_CONFIG)
                          / 15000)) = (50 :: real)"
  by (simp add: startingFPA_def GUIDANCE_CONFIG_def)

section \<open>No circularization forecast before 1500 seconds\<close>

lemma traditionalStrategy_early:
  "time s < 1500 \<Longrightarrow> traditionalStrategy ext cfg s orb burnT altitude latch = ([], None)"
  by (simp add: traditionalStrategy_def circularizationPhase_def)

lemma retrogradeStrategy_types:
  "e \<in> set (fst (retrogradeStrategy ext cfg s orb altitude latch))
     \<Longrightarrow> type_ev e = Some retrograde"
  by (auto simp: retrogradeStrategy_def burnEvent_def Let_def
           split: option.splits jsnum.splits if_splits)

text \<open>
  Claim C10. While the mission time is below 1500 seconds, \<open>calculateBurnEvents\<close> returns
  no event of type circularization, whatever the orbit, the strategy and the engine
  state.
\<close>

theorem no_circularization_before_1500:
  "time s < 1500 \<Longrightarrow>
     \<forall>e \<in> set (fst (calculateBurnEvents ext cfg s L)). type_ev e \<noteq> Some circularization"
proof (intro ballI)
  fix e
  assume t: "time s < 1500" and e: "e \<in> set (fst (calculateBurnEvents ext cfg s L))"
  show "type_ev e \<noteq> Some circularization"
  proof (cases "getAltitude ext s < atmosphereLimit cfg")
    case True
    with e show ?thesis by (simp add: calculateBurnEvents_def)
  next
    case False
    with e t have "e \<in> set (fst (retrogradeStrategy ext cfg s (predictOrbit ext s)
                      (getAltitude ext s) (absoluteRetrogradeBurnStartTime L)))"
      by (simp add: calculateBurnEvents_def Let_def traditionalStrategy_early
               split: prod.splits)
    then show ?thesis using retrogradeStrategy_types by fastforce
  qed
qed

theorem no_circularization_before_1500_witness:
  "time (exampleState 120000 400 1000 5000) < 1500
   \<and> list_all (\<lambda>e. type_ev e \<noteq> Some circularization)
       (fst (calculateBurnEvents (exampleExternals 0 5000 suborbitalOrbit) GUIDANCE_CONFIG
               (exampleState 120000 400 1000 5000) noLatches))"
proof -
  have h: "time (exampleState 120000 400 1000 5000) < 1500"
    by (simp add: exampleState_def)
  show ?thesis
    using h no_circularization_before_1500 [OF h]
    by (simp add: list_all_iff)
qed

section \<open>Evaluating the concrete inputs\<close>

lemma radius_exampleState:
  "- EARTH_RADIUS \<le> alt \<Longrightarrow> radius (exampleState alt t u e) = EARTH_RADIUS + alt"
  by (simp add: radius_def exampleState_def)

lemma localUp_exampleState:
  "- EARTH_RADIUS < alt \<Longrightarrow> localUp (exampleState alt t u e) = (1, 0)"
  by (simp add: localUp_def radius_exampleState) (simp add: exampleState_def)

lemma localEast_exampleState:
  "- EARTH_RADIUS < alt \<Longrightarrow> localEast (exampleState alt t u e) = (0, - 1)"
  by (simp add: localEast_def localUp_exampleState)

lemma vVertical_exampleState:
  "- EARTH_RADIUS < alt \<Longrightarrow> vVertical (exampleState alt t u e) = u"
  by (simp add: vVertical_def localUp_exampleState) (simp add: exampleState_def)

lemma vHorizontal_exampleState:
  "- EARTH_RADIUS < alt \<Longrightarrow> vHorizontal (exampleState alt t u e) = e"
  by (simp add: vHorizontal_def localEast_exampleState) (simp add: exampleState_def)

lemma flightPathAngle_exampleState:
  "- EARTH_RADIUS < alt \<Longrightarrow> e > 0 \<Longrightarrow>
     flightPathAngle (exampleState alt t u e) = arctan (u / e) * 180 / pi"
  by (simp add: flightPathAngle_def vVertical_exampleState vHorizontal_exampleState atan2_def)

section \<open>The parts of a tick\<close>

lemma atmosphereGuidance_keeps:
  "lastCommandedPitch (snd (atmosphereGuidance ext cfg s dt gs altitude)) = lastCommandedPitch gs"
  "isRetrograde (snd (atmosphereGuidance ext cfg s dt gs altitude)) = isRetrograde gs"
  by (simp_all add: atmosphereGuidance_def)

lemma vacuumGuidance_keeps:
  "lastCommandedPitch (snd (vacuumGuidance ext cfg s dt gs altitude)) = lastCommandedPitch gs"
  "isRetrograde (snd (vacuumGuidance ext cfg s dt gs altitude)) = False"
  by (simp_all add: vacuumGuidance_def split: prod.splits)

lemma priorityGuidance_keeps:
  "lastCommandedPitch (snd (priorityGuidance ext cfg s dt gs)) = lastCommandedPitch gs"
  "isRetrograde gs = False \<Longrightarrow> isRetrograde (snd (priorityGuidance ext cfg s dt gs)) = False"
  by (simp_all add: priorityGuidance_def Let_def atmosphereGuidance_keeps vacuumGuidance_keeps)

lemma computeGuidance_pitch:
  "pitch (fst (computeGuidance ext cfg s dt gs)) =
     rateLimit cfg dt (lastCommandedPitch gs)
       (max (- 5) (min 90 (fst (snd (fst (priorityGuidance ext cfg s dt gs))))))"
  by (simp add: computeGuidance_def Let_def case_prod_beta priorityGuidance_keeps)

lemma computeGuidance_phase:
  "phase_r (fst (computeGuidance ext cfg s dt gs)) = fst (fst (priorityGuidance ext cfg s dt gs))"
  by (simp add: computeGuidance_def Let_def case_prod_beta)

lemma computeGuidance_throttle:
  "throttle_r (fst (computeGuidance ext cfg s dt gs))
     = snd (snd (fst (priorityGuidance ext cfg s dt gs)))"
  by (simp add: computeGuidance_def Let_def case_prod_beta)

lemma computeGuidance_state:
  "lastCommandedPitch (snd (computeGuidance ext cfg s dt gs))
     = pitch (fst (computeGuidance ext cfg s dt gs))"
  "isRetrograde (snd (computeGuidance ext cfg s dt gs))
     = isRetrograde (snd (priorityGuidance ext cfg s dt gs))"
  by (simp_all add: computeGuidance_def Let_def case_prod_beta)

lemma computeGuidance_thrustDir:
  "thrustDir (fst (computeGuidance ext cfg s dt gs)) =
     normalizeDir (if isRetrograde (snd (priorityGuidance ext cfg s dt gs)) then retrogradeDir s
                   else pitchDir s (pitch (fst (computeGuidance ext cfg s dt gs))))"
  by (simp add: computeGuidance_def Let_def case_prod_beta)

lemma runGuidance_Cons:
  "runGuidance ext cfg gs ((s, dt) # ticks) =
     (fst (computeGuidance ext cfg s dt gs)
        # fst (runGuidance ext cfg (snd (computeGuidance ext cfg s dt gs)) ticks),
      snd (runGuidance ext cfg (snd (computeGuidance ext cfg s dt gs)) ticks))"
  by (simp add: case_prod_beta)

section \<open>Pitch range and pitch rate\<close>

lemma rateLimit_range:
  assumes "- 5 \<le> l" "l \<le> 90" "- 5 \<le> p" "p \<le> 90" "0 \<le> maxPitchRate cfg"
  shows "- 5 \<le> rateLimit cfg dt l p \<and> rateLimit cfg dt l p \<le> 90"
proof (cases "dt > 0 \<and> \<bar>p - l\<bar> > maxPitchRate cfg * dt")
  case False
  then show ?thesis using assms by (auto simp: rateLimit_def Let_def)
next
  case True
  define m where "m = maxPitchRate cfg * dt"
  have m: "0 \<le> m" "m < \<bar>p - l\<bar>" using True assms by (simp_all add: m_def)
  have r: "rateLimit cfg dt l p = l + sgn (p - l) * m"
    using True by (simp add: rateLimit_def Let_def m_def)
  show ?thesis
  proof (cases "p - l > 0")
    case True
    then have "sgn (p - l) = 1" by simp
    with True m assms show ?thesis unfolding r by auto
  next
    case False
    with m have neg: "p - l < 0" by auto
    then have "sgn (p - l) = - 1" by simp
    with neg m assms show ?thesis unfolding r by auto
  qed
qed

lemma rateLimit_bound:
  assumes "dt > 0" "0 \<le> maxPitchRate cfg"
  shows "\<bar>rateLimit cfg dt l p - l\<bar> \<le> maxPitchRate cfg * dt"
proof -
  define m where "m = maxPitchRate cfg * dt"
  have m: "0 \<le> m" using assms by (simp add: m_def)
  have "rateLimit cfg dt l p = (if \<bar>p - l\<bar> > m then l + sgn (p - l) * m else p)"
    using assms by (simp add: rateLimit_def Let_def m_def)
  then have "\<bar>rateLimit cfg dt l p - l\<bar> \<le> m"
    using m by (auto simp: sgn_if)
  then show ?thesis by (simp add: m_def)
qed

lemma runGuidance_pitchWithinLimits:
  assumes "0 \<le> maxPitchRate cfg" "- 5 \<le> lastCommandedPitch gs" "lastCommandedPitch gs \<le> 90"
  shows "pitchWithinLimits cfg (lastCommandedPitch gs)
           (zip (fst (runGuidance ext cfg gs ticks)) ticks)"
  using assms(2,3)
proof (induction ticks arbitrary: gs)
  case Nil
  show ?case by simp
next
  case (Cons t ticks)
  obtain s dt where t: "t = (s, dt)" by (cases t)
  let ?c = "computeGuidance ext cfg s dt gs"
  have p: "pitch (fst ?c) = rateLimit cfg dt (lastCommandedPitch gs)
       (max (- 5) (min 90 (fst (snd (fst (priorityGuidance ext cfg s dt gs))))))"
    by (rule computeGuidance_pitch)
  have rng: "- 5 \<le> pitch (fst ?c) \<and> pitch (fst ?c) \<le> 90"
    unfolding p using Cons.prems assms(1) by (intro rateLimit_range) auto
  have bnd: "dt > 0 \<longrightarrow> \<bar>pitch (fst ?c) - lastCommandedPitch gs\<bar> \<le> maxPitchRate cfg * dt"
    unfolding p using assms(1) rateLimit_bound by blast
  have ih: "pitchWithinLimits cfg (lastCommandedPitch (snd ?c))
              (zip (fst (runGuidance ext cfg (snd ?c) ticks)) ticks)"
    using rng by (intro Cons.IH) (simp_all add: computeGuidance_state)
  show ?case
    using rng bnd ih unfolding t runGuidance_Cons by (simp add: computeGuidance_state)
qed

text \<open>
  Claim C1, as the code has it. Starting from the reset guidance state and for any
  sequence of vehicle states and tick durations, every returned pitch lies in
  \<open>[-5, 90]\<close>, and on every tick with \<open>dt > 0\<close> it differs from the previous command by at
  most \<open>maxPitchRate * dt\<close>. The pitch rate of the configuration is taken non-negative,
  as the shipped value \<open>2\<close> is.
\<close>

theorem pitch_in_range_and_rate_limited:
  "0 \<le> maxPitchRate cfg \<Longrightarrow>
     pitchWithinLimits cfg (lastCommandedPitch resetGuidance)
       (zip (fst (runGuidance ext cfg resetGuidance ticks)) ticks)"
  by (rule runGuidance_pitchWithinLimits) (simp_all add: resetGuidance_def)

theorem pitch_in_range_and_rate_limited_witness:
  "0 \<le> maxPitchRate GUIDANCE_CONFIG
   \<and> pitchWithinLimits GUIDANCE_CONFIG 90
       (zip (fst (runGuidance (exampleExternals 1.2 40 suborbitalOrbit) GUIDANCE_CONFIG
                    resetGuidance
                    [(exampleState 150 9 40 0, 0.1), (exampleState 154 9.1 41 0, 0.1)]))
            [(exampleState 150 9 40 0, 0.1), (exampleState 154 9.1 41 0, 0.1)])"
proof -
  have h: "0 \<le> maxPitchRate GUIDANCE_CONFIG"
    by (simp add: GUIDANCE_CONFIG_def)
  have l: "lastCommandedPitch resetGuidance = 90"
    by (simp add: resetGuidance_def)
  show ?thesis
    using h pitch_in_range_and_rate_limited [OF h, of "exampleExternals 1.2 40 suborbitalOrbit"
        "[(exampleState 150 9 40 0, 0.1), (exampleState 154 9.1 41 0, 0.1)]"]
    unfolding l by simp
qed

lemma pitchKickPitch_example:
  "pitchKickPitch GUIDANCE_CONFIG (exampleState 150 9 40 0) = 87.5"
  by (simp add: pitchKickPitch_def GUIDANCE_CONFIG_def exampleState_def)

text \<open>
  The claim as stated, for every \<open>dt\<close>, fails at \<open>dt = 0\<close>: the rate limiter is skipped
  unless \<open>dt > 0\<close>. Nine seconds into the flight the pitch kick commands 87.5 degrees;
  after a reset the previous command is 90, and \<open>2.5 > maxPitchRate * 0\<close>.
\<close>

theorem pitch_rate_unlimited_at_zero_dt:
  "\<not> \<bar>pitch (fst (computeGuidance (exampleExternals 1.2 40 suborbitalOrbit) GUIDANCE_CONFIG
             (exampleState 150 9 40 0) 0 resetGuidance))
        - lastCommandedPitch resetGuidance\<bar>
      \<le> maxPitchRate GUIDANCE_CONFIG * 0"
proof -
  let ?s = "exampleState 150 9 40 0"
  have r: "radius ?s - EARTH_RADIUS = 150"
    by (simp add: radius_exampleState EARTH_RADIUS_def)
  have t: "time ?s = 9" by (simp add: exampleState_def)
  have "priorityGuidance (exampleExternals 1.2 40 suborbitalOrbit) GUIDANCE_CONFIG ?s 0
          resetGuidance = ((''pitch-kick'', 87.5, 1), resetGuidance)"
    unfolding priorityGuidance_def r Let_def atmosphereGuidance_def pitchKickPitch_example t
    by (simp add: GUIDANCE_CONFIG_def)
  then have "pitch (fst (computeGuidance (exampleExternals 1.2 40 suborbitalOrbit)
                 GUIDANCE_CONFIG ?s 0 resetGuidance)) = 87.5"
    by (simp add: computeGuidance_pitch rateLimit_def)
  then show ?thesis by (simp add: resetGuidance_def)
qed

section \<open>The retrograde flag\<close>

lemma runGuidance_never_retrograde:
  "isRetrograde gs = False \<Longrightarrow>
     isRetrograde (snd (runGuidance ext cfg gs ticks)) = False
     \<and> list_all2 (\<lambda>r (s, dt). thrustDir r = normalizeDir (pitchDir s (pitch r)))
         (fst (runGuidance ext cfg gs ticks)) ticks"
proof (induction ticks arbitrary: gs)
  case Nil
  then show ?case by simp
next
  case (Cons t ticks)
  obtain s dt where t: "t = (s, dt)" by (cases t)
  let ?c = "computeGuidance ext cfg s dt gs"
  have b: "isRetrograde (snd (priorityGuidance ext cfg s dt gs)) = False"
    using Cons.prems by (rule priorityGuidance_keeps)
  have 1: "isRetrograde (snd ?c) = False" by (simp add: computeGuidance_state b)
  have 2: "thrustDir (fst ?c) = normalizeDir (pitchDir s (pitch (fst ?c)))"
    by (simp add: computeGuidance_thrustDir b)
  show ?case using Cons.IH [OF 1] 2 unfolding t runGuidance_Cons by simp
qed

text \<open>
  Claim C9. After \<open>resetGuidance\<close> and any sequence of \<open>computeGuidance\<close> calls, the flag
  \<open>isRetrograde\<close> is false, and every thrust direction returned on the way is the
  normalised pitch vector of the local horizon frame: the velocity-opposing branch is
  never taken.
\<close>

theorem isRetrograde_stays_false:
  "isRetrograde (snd (runGuidance ext cfg resetGuidance ticks)) = False
   \<and> list_all2 (\<lambda>r (s, dt). thrustDir r = normalizeDir (pitchDir s (pitch r)))
       (fst (runGuidance ext cfg resetGuidance ticks)) ticks"
  by (rule runGuidance_never_retrograde) (simp add: resetGuidance_def)

theorem isRetrograde_stays_false_witness:
  "isRetrograde (snd (runGuidance (exampleExternals 0 5000 suborbitalOrbit) GUIDANCE_CONFIG
                        resetGuidance
                        [(exampleState 150 9 40 0, 0.1), (exampleState 120000 400 1000 5000, 0.1)]))
     = False"
  using isRetrograde_stays_false [of "exampleExternals 0 5000 suborbitalOrbit" GUIDANCE_CONFIG
      "[(exampleState 150 9 40 0, 0.1), (exampleState 120000 400 1000 5000, 0.1)]"]
  by (rule conjunct1)

section \<open>Emergency periapsis raise\<close>

lemma vacuumCases_emergency:
  assumes "periapsis (predictOrbit ext s) < 0"
      and "targetAltitude cfg - 1000 \<le> apoapsis (predictOrbit ext s)"
  shows "vacuumCases ext cfg s dt gs altitude
           = (''emergency-raise-periapsis'', max 0 (flightPathAngle s - 15), 1)"
  using assms by (simp add: vacuumCases_def Let_def)

text \<open>
  Claim C3, as the code has it. At or above the atmosphere limit, a predicted periapsis
  below ground with the apoapsis no lower than the target minus the 1000 m tolerance
  gives phase \<open>emergency-raise-periapsis\<close> and full throttle, whatever else holds. The
  commanded pitch is the flight-path angle less 15 degrees, kept between 0 and 90, and
  then rate-limited against the previous command.
\<close>

theorem emergency_raise_periapsis_above_atmosphere:
  assumes "atmosphereLimit cfg \<le> radius s - EARTH_RADIUS"
      and "periapsis (predictOrbit ext s) < 0"
      and "targetAltitude cfg - 1000 \<le> apoapsis (predictOrbit ext s)"
  shows "phase_r (fst (computeGuidance ext cfg s dt gs)) = ''emergency-raise-periapsis''
       \<and> throttle_r (fst (computeGuidance ext cfg s dt gs)) = 1
       \<and> pitch (fst (computeGuidance ext cfg s dt gs))
           = rateLimit cfg dt (lastCommandedPitch gs) (min 90 (max 0 (flightPathAngle s - 15)))"
proof -
  have "fst (priorityGuidance ext cfg s dt gs)
          = (''emergency-raise-periapsis'',
             max (- 5) (min 90 (max 0 (flightPathAngle s - 15))), 1)"
    using assms(1)
    by (simp add: priorityGuidance_def Let_def vacuumGuidance_def
          vacuumCases_emergency [OF assms(2,3)])
  moreover have "max (- 5) (min 90 (max (- 5) (min 90 (max 0 (flightPathAngle s - 15)))))
      = min 90 (max 0 (flightPathAngle s - 15))" by simp
  ultimately show ?thesis
    by (simp add: computeGuidance_phase computeGuidance_throttle computeGuidance_pitch)
qed

theorem emergency_raise_periapsis_above_atmosphere_witness:
  "atmosphereLimit GUIDANCE_CONFIG \<le> radius (exampleState 120000 400 1000 5000) - EARTH_RADIUS
   \<and> periapsis (predictOrbit (exampleExternals 0 5000 suborbitalOrbit)
                  (exampleState 120000 400 1000 5000)) < 0
   \<and> targetAltitude GUIDANCE_CONFIG - 1000
        \<le> apoapsis (predictOrbit (exampleExternals 0 5000 suborbitalOrbit)
                       (exampleState 120000 400 1000 5000))
   \<and> phase_r (fst (computeGuidance (exampleExternals 0 5000 suborbitalOrbit) GUIDANCE_CONFIG
         (exampleState 120000 400 1000 5000) 0.1 resetGuidance)) = ''emergency-raise-periapsis''
   \<and> throttle_r (fst (computeGuidance (exampleExternals 0 5000 suborbitalOrbit) GUIDANCE_CONFIG
         (exampleState 120000 400 1000 5000) 0.1 resetGuidance)) = 1"
proof -
  let ?s = "exampleState 120000 400 1000 5000"
  let ?e = "exampleExternals 0 5000 suborbitalOrbit"
  have h1: "atmosphereLimit GUIDANCE_CONFIG \<le> radius ?s - EARTH_RADIUS"
    by (simp add: radius_exampleState EARTH_RADIUS_def) (simp add: GUIDANCE_CONFIG_def)
  have h2: "periapsis (predictOrbit ?e ?s) < 0"
    by (simp add: exampleExternals_def suborbitalOrbit_def)
  have h3: "targetAltitude GUIDANCE_CONFIG - 1000 \<le> apoapsis (predictOrbit ?e ?s)"
    by (simp add: exampleExternals_def suborbitalOrbit_def GUIDANCE_CONFIG_def)
  show ?thesis
    using h1 h2 h3
      emergency_raise_periapsis_above_atmosphere [OF h1 h2 h3, of "0.1" resetGuidance]
    by simp
qed

text \<open>
  The claim as stated, regardless of any other condition, fails below the atmosphere
  limit, where the ladder is not consulted. On a 150 km mission, 60 km up and 150 s into
  the flight, the predicted orbit already reaches 160 km and still comes down through
  the ground; the phase is the atmospheric ascent.
\<close>

theorem no_emergency_below_atmosphere_limit:
  "periapsis (predictOrbit (exampleExternals 0.0003 2200 lowTargetOrbit)
                (exampleState 60000 150 1300 1800)) < 0
   \<and> apoapsis (predictOrbit (exampleExternals 0.0003 2200 lowTargetOrbit)
                 (exampleState 60000 150 1300 1800))
        \<ge> targetAltitude lowTargetConfig - 1000
   \<and> phase_r (fst (computeGuidance (exampleExternals 0.0003 2200 lowTargetOrbit)
         lowTargetConfig (exampleState 60000 150 1300 1800) 0.1 resetGuidance))
        = ''atmospheric-ascent''"
proof -
  let ?s = "exampleState 60000 150 1300 1800"
  let ?e = "exampleExternals 0.0003 2200 lowTargetOrbit"
  have r: "radius ?s - EARTH_RADIUS = 60000"
    by (simp add: radius_exampleState EARTH_RADIUS_def)
  have t: "time ?s = 150" by (simp add: exampleState_def)
  have q: "dynamicPressure ?e ?s 60000 = 726"
    by (simp add: dynamicPressure_def exampleExternals_def)
  have "fst (fst (priorityGuidance ?e lowTargetConfig ?s 0.1 resetGuidance))
          = ''atmospheric-ascent''"
    unfolding priorityGuidance_def r Let_def atmosphereGuidance_def t q
    by (simp add: lowTargetConfig_def GUIDANCE_CONFIG_def)
  then show ?thesis
    by (simp add: computeGuidance_phase)
       (simp add: exampleExternals_def lowTargetOrbit_def lowTargetConfig_def
          GUIDANCE_CONFIG_def)
qed

text \<open>
  Nor is the pitch always 15 degrees below the flight-path angle: flying level in the
  emergency phase, the command is 0 degrees, not -15.
\<close>

lemma emergency_pitch_floor_example:
  "flightPathAngle (exampleState 120000 400 0 5000) = 0
   \<and> phase_r (fst (computeGuidance (exampleExternals 0 5000 suborbitalOrbit) GUIDANCE_CONFIG
         (exampleState 120000 400 0 5000) 0.1 (resetGuidance\<lparr>lastCommandedPitch := 0\<rparr>)))
        = ''emergency-raise-periapsis''
   \<and> pitch (fst (computeGuidance (exampleExternals 0 5000 suborbitalOrbit) GUIDANCE_CONFIG
         (exampleState 120000 400 0 5000) 0.1 (resetGuidance\<lparr>lastCommandedPitch := 0\<rparr>)))
        = 0"
proof -
  let ?s = "exampleState 120000 400 0 5000"
  let ?e = "exampleExternals 0 5000 suborbitalOrbit"
  have h1: "atmosphereLimit GUIDANCE_CONFIG \<le> radius ?s - EARTH_RADIUS"
    by (simp add: radius_exampleState EARTH_RADIUS_def) (simp add: GUIDANCE_CONFIG_def)
  have h2: "periapsis (predictOrbit ?e ?s) < 0"
    by (simp add: exampleExternals_def suborbitalOrbit_def)
  have h3: "targetAltitude GUIDANCE_CONFIG - 1000 \<le> apoapsis (predictOrbit ?e ?s)"
    by (simp add: exampleExternals_def suborbitalOrbit_def GUIDANCE_CONFIG_def)
  have "fst (priorityGuidance ?e GUIDANCE_CONFIG ?s 0.1 (resetGuidance\<lparr>lastCommandedPitch := 0\<rparr>))
          = (''emergency-raise-periapsis'',
             max (- 5) (min 90 (max 0 (flightPathAngle ?s - 15))), 1)"
    using h1
    by (simp add: priorityGuidance_def Let_def vacuumGuidance_def
          vacuumCases_emergency [OF h2 h3])
  moreover have f: "flightPathAngle ?s = 0"
    by (simp add: flightPathAngle_exampleState EARTH_RADIUS_def)
  ultimately show ?thesis
    by (simp add: computeGuidance_phase computeGuidance_pitch rateLimit_def)
qed

section \<open>Max-Q protection\<close>

text \<open>
  Claim C5, as the code has it. Below the atmosphere limit and once the pitch kick is
  over, a dynamic pressure above 0.8 times \<open>maxQ\<close> gives phase \<open>max-q-protection\<close>. The
  commanded pitch is the flight-path angle clamped to \<open>[-5, 90]\<close> and rate-limited
  against the previous command; it is the flight-path angle itself when that lies in the
  range and within reach of the previous command (or the tick has no duration).
\<close>

theorem max_q_protection_after_pitch_kick:
  assumes "radius s - EARTH_RADIUS < atmosphereLimit cfg"
      and "pitchKickStart cfg \<le> time s" and "pitchKickEnd cfg \<le> time s"
      and "0.5 * getAtmosphericDensity ext (radius s - EARTH_RADIUS) * getAirspeed ext s
             * getAirspeed ext s > maxQ cfg * 0.8"
  shows "phase_r (fst (computeGuidance ext cfg s dt gs)) = ''max-q-protection''
       \<and> pitch (fst (computeGuidance ext cfg s dt gs))
           = rateLimit cfg dt (lastCommandedPitch gs) (max (- 5) (min 90 (flightPathAngle s)))
       \<and> (- 5 \<le> flightPathAngle s \<and> flightPathAngle s \<le> 90
            \<and> (dt \<le> 0 \<or> \<bar>flightPathAngle s - lastCommandedPitch gs\<bar> \<le> maxPitchRate cfg * dt)
          \<longrightarrow> pitch (fst (computeGuidance ext cfg s dt gs)) = flightPathAngle s)"
proof -
  have "fst (priorityGuidance ext cfg s dt gs) = (''max-q-protection'', flightPathAngle s, 1)"
    using assms
    by (simp add: priorityGuidance_def Let_def atmosphereGuidance_def dynamicPressure_def)
  then show ?thesis
    by (auto simp add: computeGuidance_phase computeGuidance_pitch rateLimit_def Let_def)
qed

lemma flightPathAngle_example_45:
  "flightPathAngle (exampleState 12000 70 400 400) = 45"
  by (simp add: flightPathAngle_exampleState EARTH_RADIUS_def arctan_one)

lemma max_q_example_hypotheses:
  "radius (exampleState 12000 70 400 400) - EARTH_RADIUS < atmosphereLimit GUIDANCE_CONFIG"
  "pitchKickStart GUIDANCE_CONFIG \<le> time (exampleState 12000 70 400 400)"
  "pitchKickEnd GUIDANCE_CONFIG \<le> time (exampleState 12000 70 400 400)"
  "0.5 * getAtmosphericDensity (exampleExternals 0.3 560 suborbitalOrbit)
           (radius (exampleState 12000 70 400 400) - EARTH_RADIUS)
       * getAirspeed (exampleExternals 0.3 560 suborbitalOrbit) (exampleState 12000 70 400 400)
       * getAirspeed (exampleExternals 0.3 560 suborbitalOrbit) (exampleState 12000 70 400 400)
     > maxQ GUIDANCE_CONFIG * 0.8"
proof -
  have r: "radius (exampleState 12000 70 400 400) - EARTH_RADIUS = 12000"
    by (simp add: radius_exampleState EARTH_RADIUS_def)
  show "radius (exampleState 12000 70 400 400) - EARTH_RADIUS < atmosphereLimit GUIDANCE_CONFIG"
    unfolding r by (simp add: GUIDANCE_CONFIG_def)
qed (simp_all add: GUIDANCE_CONFIG_def exampleState_def exampleExternals_def)

theorem max_q_protection_after_pitch_kick_witness:
  "radius (exampleState 12000 70 400 400) - EARTH_RADIUS < atmosphereLimit GUIDANCE_CONFIG
   \<and> pitchKickEnd GUIDANCE_CONFIG \<le> time (exampleState 12000 70 400 400)
   \<and> phase_r (fst (computeGuidance (exampleExternals 0.3 560 suborbitalOrbit) GUIDANCE_CONFIG
         (exampleState 12000 70 400 400) 0.1 (resetGuidance\<lparr>lastCommandedPitch := 45.1\<rparr>)))
        = ''max-q-protection''
   \<and> pitch (fst (computeGuidance (exampleExternals 0.3 560 suborbitalOrbit) GUIDANCE_CONFIG
         (exampleState 12000 70 400 400) 0.1 (resetGuidance\<lparr>lastCommandedPitch := 45.1\<rparr>)))
        = flightPathAngle (exampleState 12000 70 400 400)"
  using max_q_example_hypotheses(1,3)
    max_q_protection_after_pitch_kick [OF max_q_example_hypotheses, of "0.1"
      "resetGuidance\<lparr>lastCommandedPitch := 45.1\<rparr>"]
  by (simp add: flightPathAngle_example_45 GUIDANCE_CONFIG_def)

text \<open>
  The claim as stated, a pitch exactly equal to the flight-path angle, fails when the
  previous command is out of reach: 70 s into the flight at 12 km, with a dynamic
  pressure of 47 kPa, a flight-path angle of 45 degrees and a previous command of 50,
  a tick of 0.1 s moves the command by 0.2 degrees only.
\<close>

theorem max_q_pitch_is_rate_limited:
  "radius (exampleState 12000 70 400 400) - EARTH_RADIUS < atmosphereLimit GUIDANCE_CONFIG
   \<and> maxQ GUIDANCE_CONFIG * 0.8
        < dynamicPressure (exampleExternals 0.3 560 suborbitalOrbit)
            (exampleState 12000 70 400 400)
            (radius (exampleState 12000 70 400 400) - EARTH_RADIUS)
   \<and> flightPathAngle (exampleState 12000 70 400 400) = 45
   \<and> pitch (fst (computeGuidance (exampleExternals 0.3 560 suborbitalOrbit) GUIDANCE_CONFIG
         (exampleState 12000 70 400 400) 0.1 (resetGuidance\<lparr>lastCommandedPitch := 50\<rparr>)))
        = 49.8"
proof -
  let ?s = "exampleState 12000 70 400 400"
  let ?e = "exampleExternals 0.3 560 suborbitalOrbit"
  note h = max_q_example_hypotheses
  have q: "maxQ GUIDANCE_CONFIG * 0.8 < dynamicPressure ?e ?s (radius ?s - EARTH_RADIUS)"
    using h(4) by (simp add: dynamicPressure_def Let_def)
  have "fst (priorityGuidance ?e GUIDANCE_CONFIG ?s 0.1 (resetGuidance\<lparr>lastCommandedPitch := 50\<rparr>))
          = (''max-q-protection'', flightPathAngle ?s, 1)"
    using h q by (simp add: priorityGuidance_def Let_def atmosphereGuidance_def)
  then have "pitch (fst (computeGuidance ?e GUIDANCE_CONFIG ?s 0.1
                 (resetGuidance\<lparr>lastCommandedPitch := 50\<rparr>))) = 49.8"
    by (simp add: computeGuidance_pitch flightPathAngle_example_45 rateLimit_def
          GUIDANCE_CONFIG_def)
  with h(1) q flightPathAngle_example_45 show ?thesis by simp
qed

text \<open>
  And the pitch kick comes before the Max-Q test: nine seconds into the flight the phase
  is \<open>pitch-kick\<close> whatever the dynamic pressure.
\<close>

lemma pitch_kick_before_max_q_example:
  "maxQ GUIDANCE_CONFIG * 0.8
     < dynamicPressure (exampleExternals 1.2 300 suborbitalOrbit) (exampleState 150 9 40 0)
         (radius (exampleState 150 9 40 0) - EARTH_RADIUS)
   \<and> phase_r (fst (computeGuidance (exampleExternals 1.2 300 suborbitalOrbit) GUIDANCE_CONFIG
         (exampleState 150 9 40 0) 0.1 resetGuidance)) = ''pitch-kick''"
proof -
  let ?s = "exampleState 150 9 40 0"
  have r: "radius ?s - EARTH_RADIUS = 150"
    by (simp add: radius_exampleState EARTH_RADIUS_def)
  have t: "time ?s = 9" by (simp add: exampleState_def)
  have "fst (fst (priorityGuidance (exampleExternals 1.2 300 suborbitalOrbit) GUIDANCE_CONFIG
          ?s 0.1 resetGuidance)) = ''pitch-kick''"
    unfolding priorityGuidance_def r Let_def atmosphereGuidance_def t
    by (simp add: GUIDANCE_CONFIG_def)
  then show ?thesis
    by (simp add: computeGuidance_phase)
       (simp add: dynamicPressure_def exampleExternals_def GUIDANCE_CONFIG_def)
qed

section \<open>The latched circularization countdown\<close>

lemma coastingCountdown_latched:
  "coastingCountdown s orb burnT (Some v) =
     (if v - time s > 0 \<and> v - time s < 10000
      then [burnEvent (v - time s) ''Circularization burn start'' circularization] else [],
      if v - time s \<le> 0 then None else Some v)"
  by (simp add: coastingCountdown_def Let_def)

lemma thrustingCountdown_latched:
  "thrustingCountdown ext s orb burnT altitude (Some v) =
     (if v - time s > 0 \<and> v - time s < 10000
      then [burnEvent (v - time s) ''Circularization burn start'' circularization] else [],
      if v - time s \<le> 0 then None else Some v)"
  by (simp add: thrustingCountdown_def Let_def)

lemma traditionalStrategy_latched:
  "traditionalStrategy ext cfg s orb burnT altitude (Some v) =
     (if circularizationPhase cfg s orb burnT then
        (if climbingToApoapsis s orb altitude then
           (if v - time s > 0 \<and> v - time s < 10000
            then [burnEvent (v - time s) ''Circularization burn start'' circularization] else [],
            if v - time s \<le> 0 then None else Some v)
         else ([], Some v))
      else ([], None))"
  by (simp add: traditionalStrategy_def Let_def climbingToApoapsis_def
        coastingCountdown_latched thrustingCountdown_latched)

lemma traditionalStrategy_out_of_phase:
  "\<not> circularizationPhase cfg s orb burnT \<Longrightarrow>
     traditionalStrategy ext cfg s orb burnT altitude latch = ([], None)"
  by (simp add: traditionalStrategy_def)

lemma retrogradeStrategy_in_phase:
  "circularizationPhase cfg s orb burnT \<Longrightarrow>
     retrogradeStrategy ext cfg s orb altitude latch = ([], None)"
  by (simp add: retrogradeStrategy_def circularizationPhase_def Let_def)

lemma calculateBurnEvents_vacuum:
  "atmosphereLimit cfg \<le> getAltitude ext s \<Longrightarrow>
   calculateBurnEvents ext cfg s L =
     (let orb = predictOrbit ext s;
          burnT = circularizationBurnTime ext s (circularizationDeltaV s orb);
          t = traditionalStrategy ext cfg s orb burnT (getAltitude ext s)
                (absoluteBurnStartTime L);
          r = retrogradeStrategy ext cfg s orb (getAltitude ext s)
                (absoluteRetrogradeBurnStartTime L)
      in (fst t @ fst r,
          \<lparr> absoluteBurnStartTime = snd t, absoluteRetrogradeBurnStartTime = snd r \<rparr>))"
  by (simp add: calculateBurnEvents_def Let_def case_prod_beta)

lemma calculateBurnEvents_atmosphere:
  "getAltitude ext s < atmosphereLimit cfg \<Longrightarrow> calculateBurnEvents ext cfg s L = ([], L)"
  by (simp add: calculateBurnEvents_def)

text \<open>
  Claim C4, as the code has it. Let the circularization latch hold a timestamp \<open>v\<close> when
  \<open>calculateBurnEvents\<close> is called. Then
  \<^item> the call leaves \<open>v\<close> in the latch or clears it, and never stores another timestamp:
    a timestamp is computed only into an empty latch;
  \<^item> at or above the atmosphere limit, in the circularization phase, ascending below
    apoapsis and with \<open>v - time > 0\<close>, the latch is unchanged, and the forecast is the one
    circularization event with time \<open>v - time\<close> when that is below 10000 s, and empty
    otherwise;
  \<^item> at or above the atmosphere limit and outside the circularization phase the latch
    is cleared;
  \<^item> at or above the atmosphere limit, in the phase, ascending below apoapsis and with
    \<open>v - time \<le> 0\<close>, the latch is cleared;
  \<^item> the latch is cleared only at or above the atmosphere limit, and only when the phase
    has been left or \<open>v - time \<le> 0\<close>.
\<close>

theorem circularization_latch_kept_and_cleared:
  fixes ext cfg s L
  defines "orb \<equiv> predictOrbit ext s"
      and "altitude \<equiv> getAltitude ext s"
      and "L' \<equiv> snd (calculateBurnEvents ext cfg s L)"
  defines "inPhase \<equiv> circularizationPhase cfg s orb (phaseBurnTime ext s)"
  assumes latched: "absoluteBurnStartTime L = Some v"
  shows "(absoluteBurnStartTime L' = Some v \<or> absoluteBurnStartTime L' = None)
       \<and> (atmosphereLimit cfg \<le> altitude \<and> inPhase \<and> climbingToApoapsis s orb altitude
            \<and> v - time s > 0 \<longrightarrow>
              absoluteBurnStartTime L' = Some v
              \<and> fst (calculateBurnEvents ext cfg s L)
                  = (if v - time s < 10000
                     then [burnEvent (v - time s) ''Circularization burn start''
                             circularization]
                     else []))
       \<and> (atmosphereLimit cfg \<le> altitude \<and> \<not> inPhase \<longrightarrow> absoluteBurnStartTime L' = None)
       \<and> (atmosphereLimit cfg \<le> altitude \<and> inPhase \<and> climbingToApoapsis s orb altitude
            \<and> v - time s \<le> 0 \<longrightarrow> absoluteBurnStartTime L' = None)
       \<and> (absoluteBurnStartTime L' = None \<longrightarrow>
            atmosphereLimit cfg \<le> altitude \<and> (\<not> inPhase \<or> v - time s \<le> 0))"
proof (cases "atmosphereLimit cfg \<le> altitude")
  case False
  then have "L' = L"
    by (simp add: L'_def altitude_def calculateBurnEvents_atmosphere)
  with False latched show ?thesis by simp
next
  case True
  then have a: "atmosphereLimit cfg \<le> getAltitude ext s" by (simp add: altitude_def)
  show ?thesis
  proof (cases inPhase)
    case False
    then show ?thesis
      using True
      by (simp add: L'_def calculateBurnEvents_vacuum [OF a] Let_def inPhase_def orb_def
            phaseBurnTime_def traditionalStrategy_out_of_phase)
  next
    case True
    then have p: "circularizationPhase cfg s (predictOrbit ext s)
        (circularizationBurnTime ext s (circularizationDeltaV s (predictOrbit ext s)))"
      by (simp add: inPhase_def orb_def phaseBurnTime_def)
    show ?thesis
      using True \<open>atmosphereLimit cfg \<le> altitude\<close> latched p
      by (simp add: L'_def calculateBurnEvents_vacuum [OF a] Let_def orb_def altitude_def
            traditionalStrategy_latched retrogradeStrategy_in_phase)
  qed
qed

lemma getAltitude_example:
  "- EARTH_RADIUS \<le> alt \<Longrightarrow>
     getAltitude (exampleExternals d a orb) (exampleState alt t u e) = alt"
  by (simp add: exampleExternals_def radius_exampleState)

lemma circularizationPhase_example:
  "1500 \<le> t \<Longrightarrow>
   circularizationPhase GUIDANCE_CONFIG (exampleState alt t u e) transferOrbit burnT"
  by (simp add: circularizationPhase_def useDirectAscent_def Let_def GUIDANCE_CONFIG_def
        transferOrbit_def exampleState_def)

theorem circularization_latch_kept_and_cleared_witness:
  "absoluteBurnStartTime
      \<lparr> absoluteBurnStartTime = Some 2600, absoluteRetrogradeBurnStartTime = None \<rparr>
     = Some 2600
   \<and> calculateBurnEvents (exampleExternals 0 7300 transferOrbit) GUIDANCE_CONFIG
        (exampleState 600000 2500 50 7300)
        \<lparr> absoluteBurnStartTime = Some 2600, absoluteRetrogradeBurnStartTime = None \<rparr>
      = ([burnEvent 100 ''Circularization burn start'' circularization],
         \<lparr> absoluteBurnStartTime = Some 2600, absoluteRetrogradeBurnStartTime = None \<rparr>)"
proof -
  let ?e = "exampleExternals 0 7300 transferOrbit"
  let ?s = "exampleState 600000 2500 50 7300"
  let ?L = "\<lparr> absoluteBurnStartTime = Some 2600, absoluteRetrogradeBurnStartTime = None \<rparr>"
  have l: "absoluteBurnStartTime ?L = Some 2600" by simp
  have alt: "getAltitude ?e ?s = 600000"
    by (simp add: getAltitude_example EARTH_RADIUS_def)
  have o: "predictOrbit ?e ?s = transferOrbit" by (simp add: exampleExternals_def)
  have t: "time ?s = 2500" by (simp add: exampleState_def)
  have a: "atmosphereLimit GUIDANCE_CONFIG \<le> getAltitude ?e ?s"
    unfolding alt by (simp add: GUIDANCE_CONFIG_def)
  have p: "circularizationPhase GUIDANCE_CONFIG ?s (predictOrbit ?e ?s) (phaseBurnTime ?e ?s)"
    unfolding o by (rule circularizationPhase_example) simp
  have c: "climbingToApoapsis ?s (predictOrbit ?e ?s) (getAltitude ?e ?s)"
    unfolding o alt
    by (simp add: climbingToApoapsis_def vVertical_exampleState EARTH_RADIUS_def
          transferOrbit_def)
  have r: "absoluteRetrogradeBurnStartTime (snd (calculateBurnEvents ?e GUIDANCE_CONFIG ?s ?L))
             = None"
    using p
    by (simp add: calculateBurnEvents_vacuum [OF a] Let_def retrogradeStrategy_in_phase
          phaseBurnTime_def)
  have "absoluteBurnStartTime (snd (calculateBurnEvents ?e GUIDANCE_CONFIG ?s ?L)) = Some 2600
      \<and> fst (calculateBurnEvents ?e GUIDANCE_CONFIG ?s ?L)
          = [burnEvent 100 ''Circularization burn start'' circularization]"
    using circularization_latch_kept_and_cleared [OF l, of ?e GUIDANCE_CONFIG ?s] a p c
    by (simp add: t)
  with r have "calculateBurnEvents ?e GUIDANCE_CONFIG ?s ?L
      = ([burnEvent 100 ''Circularization burn start'' circularization], ?L)"
    by (cases "calculateBurnEvents ?e GUIDANCE_CONFIG ?s ?L") auto
  then show ?thesis by simp
qed

text \<open>
  The claim as stated, cleared exactly when the conditions stop holding or the countdown
  reaches zero, fails once the vehicle no longer climbs: neither countdown branch runs,
  and nothing clears the latch. Here the phase conditions hold, the vehicle descends,
  the latched start time 2000 s is 500 s in the past, and the call leaves it latched.
\<close>

theorem stale_latch_kept_while_descending:
  "circularizationPhase GUIDANCE_CONFIG (exampleState 600000 2500 (- 50) 7300)
      (predictOrbit (exampleExternals 0 7300 transferOrbit)
         (exampleState 600000 2500 (- 50) 7300))
      (phaseBurnTime (exampleExternals 0 7300 transferOrbit)
         (exampleState 600000 2500 (- 50) 7300))
   \<and> 2000 - time (exampleState 600000 2500 (- 50) 7300) \<le> 0
   \<and> absoluteBurnStartTime (snd (calculateBurnEvents (exampleExternals 0 7300 transferOrbit)
        GUIDANCE_CONFIG (exampleState 600000 2500 (- 50) 7300)
        \<lparr> absoluteBurnStartTime = Some 2000, absoluteRetrogradeBurnStartTime = None \<rparr>))
      = Some 2000"
proof -
  let ?e = "exampleExternals 0 7300 transferOrbit"
  let ?s = "exampleState 600000 2500 (- 50) 7300"
  let ?L = "\<lparr> absoluteBurnStartTime = Some 2000, absoluteRetrogradeBurnStartTime = None \<rparr>"
  have alt: "getAltitude ?e ?s = 600000"
    by (simp add: getAltitude_example EARTH_RADIUS_def)
  have o: "predictOrbit ?e ?s = transferOrbit" by (simp add: exampleExternals_def)
  have t: "time ?s = 2500" by (simp add: exampleState_def)
  have a: "atmosphereLimit GUIDANCE_CONFIG \<le> getAltitude ?e ?s"
    unfolding alt by (simp add: GUIDANCE_CONFIG_def)
  have p: "circularizationPhase GUIDANCE_CONFIG ?s (predictOrbit ?e ?s) (phaseBurnTime ?e ?s)"
    unfolding o by (rule circularizationPhase_example) simp
  have c: "\<not> climbingToApoapsis ?s (predictOrbit ?e ?s) (getAltitude ?e ?s)"
    by (simp add: climbingToApoapsis_def vVertical_exampleState EARTH_RADIUS_def)
  have "absoluteBurnStartTime (snd (calculateBurnEvents ?e GUIDANCE_CONFIG ?s ?L)) = Some 2000"
    using p c
    by (simp add: calculateBurnEvents_vacuum [OF a] Let_def traditionalStrategy_latched
          phaseBurnTime_def)
  with p t show ?thesis by simp
qed

text \<open>The same happens below the atmosphere limit, where the call returns at once.\<close>

lemma latch_kept_below_atmosphere_limit_example:
  "calculateBurnEvents (exampleExternals 0.0003 2200 lowTargetOrbit) GUIDANCE_CONFIG
     (exampleState 60000 2500 (- 50) 7300)
     \<lparr> absoluteBurnStartTime = Some 2000, absoluteRetrogradeBurnStartTime = None \<rparr>
   = ([], \<lparr> absoluteBurnStartTime = Some 2000, absoluteRetrogradeBurnStartTime = None \<rparr>)"
  by (rule calculateBurnEvents_atmosphere)
     (simp add: getAltitude_example EARTH_RADIUS_def GUIDANCE_CONFIG_def)

section \<open>The next event and the forecast horizon\<close>

text \<open>
  What \<open>getNextEvent\<close> returns is an earliest entry of the forecast list, or nothing
  when the list is empty; the latches are those \<open>calculateBurnEvents\<close> left.
\<close>

lemma getNextEvent_earliest:
  "(fst (getNextEvent ext cfg s L) = None \<longleftrightarrow> fst (forecastEvents ext cfg s L) = [])
   \<and> (\<forall>e. fst (getNextEvent ext cfg s L) = Some e \<longrightarrow>
         e \<in> set (fst (forecastEvents ext cfg s L))
         \<and> (\<forall>e' \<in> set (fst (forecastEvents ext cfg s L)). time_ev e \<le> time_ev e'))
   \<and> snd (getNextEvent ext cfg s L) = snd (forecastEvents ext cfg s L)"
proof -
  obtain evs L' where f: "forecastEvents ext cfg s L = (evs, L')"
    by (cases "forecastEvents ext cfg s L")
  have s1: "set (sort_key time_ev evs) = set evs" by simp
  have s2: "sorted (map time_ev (sort_key time_ev evs))" by (rule sorted_sort_key)
  show ?thesis
  proof (cases "sort_key time_ev evs")
    case Nil
    then have "evs = []" using s1 by (metis set_empty)
    then show ?thesis by (simp add: getNextEvent_def f)
  next
    case (Cons e es)
    then have ne: "evs \<noteq> []" by auto
    have "e \<in> set evs" using s1 Cons by (metis list.set_intros(1))
    moreover have "\<forall>e' \<in> set evs. time_ev e \<le> time_ev e'"
      using s1 s2 Cons
      by (metis list.simps(9) set_ConsD sorted_simps(2) image_eqI order_refl list.set_map)
    ultimately show ?thesis using ne by (simp add: getNextEvent_def f Cons)
  qed
qed

lemma sqrt_250000: "sqrt 250000 = 500"
  by (rule real_sqrt_unique) simp_all

lemma pitchDir_level_example:
  "- EARTH_RADIUS < alt \<Longrightarrow> pitchDir (exampleState alt t u e) 0 = (0, - 1)"
  by (simp add: pitchDir_def localEast_exampleState localUp_exampleState)

lemma thrustVertical_example:
  assumes "- EARTH_RADIUS < alt"
  shows "thrustVertical ext (exampleState alt t u e) h = 0"
proof -
  let ?s = "exampleState alt t u e"
  have f: "burnModeSet ?s = False" "guidancePitch ?s = Some 0"
    by (simp_all add: burnModeSet_def exampleState_def)
  show ?thesis
    unfolding thrustVertical_def Let_def f
    by (simp add: pitchDir_level_example [OF assms] localUp_exampleState [OF assms])
qed

lemma dragVertical_example:
  "dragVertical (exampleExternals d a orb) s h = 0"
  by (simp add: dragVertical_def Let_def exampleExternals_def)

text \<open>
  Climbing at 1000 m/s from 110 km under \<open>9.375 m/s\<^sup>2\<close>, with the thrust along the
  horizon and no drag, the vehicle is 160/3 s from the 150 km mark.
\<close>

lemma timeToOrbit_example:
  "calculateTimeToAltitude (exampleExternals 0 5000 suborbitalOrbit)
     (exampleState 110000 400 1000 5000) 110000 150000 1000 = Finite (160 / 3)"
proof -
  have tv: "thrustVertical (exampleExternals 0 5000 suborbitalOrbit)
              (exampleState 110000 400 1000 5000) 110000 = 0"
    by (rule thrustVertical_example) (simp add: EARTH_RADIUS_def)
  have g: "getGravity (exampleExternals 0 5000 suborbitalOrbit) r = 9.375" for r
    by (simp add: exampleExternals_def)
  show ?thesis
    by (simp add: calculateTimeToAltitude_def Let_def tv dragVertical_example g sqrt_250000)
qed

lemma orbitEvent_example:
  "orbitEvent (exampleExternals 0 5000 suborbitalOrbit) (exampleState 110000 400 1000 5000)
     110000 = [plainEvent 20000 ''Orbit'']"
proof -
  let ?s = "exampleState 110000 400 1000 5000"
  let ?e = "exampleExternals 0 5000 suborbitalOrbit"
  have v: "vVertical ?s = 1000"
    by (simp add: vVertical_exampleState EARTH_RADIUS_def)
  have f: "engineOn ?s" "currentStage ?s = 1" "propellantLeft ?s (Suc 0)"
    "propellantRemaining ?s ! Suc 0 = 60000" "currentThrottle ?s = 0.01"
    by (simp_all add: exampleState_def propellantLeft_def currentThrottle_def)
  have m: "getMassFlowRate ?e ?s h thr = 300 * thr" for h thr
    by (simp add: exampleExternals_def)
  have n: "length (stages ROCKET_CONFIG) = 2" by (simp add: ROCKET_CONFIG_def)
  show ?thesis
    unfolding orbitEvent_def Let_def v timeToOrbit_example
    by (simp add: f m n)
qed

lemma depletionEvent_example:
  "depletionEvent (exampleExternals 0 5000 suborbitalOrbit)
     (exampleState 110000 400 1000 5000) 110000 0 n = []"
  "depletionEvent (exampleExternals 0 5000 suborbitalOrbit)
     (exampleState 110000 400 1000 5000) 110000 1 n = []"
proof -
  let ?s = "exampleState 110000 400 1000 5000"
  let ?e = "exampleExternals 0 5000 suborbitalOrbit"
  have f: "engineOn ?s" "currentStage ?s = 1" "propellantLeft ?s 1"
    "propellantRemaining ?s ! 1 = 60000" "currentThrottle ?s = 0.01"
    by (simp_all add: exampleState_def propellantLeft_def currentThrottle_def)
  have m: "getMassFlowRate ?e ?s 110000 0.01 = 3"
    by (simp add: exampleExternals_def)
  show "depletionEvent ?e ?s 110000 0 n = []"
    unfolding depletionEvent_def f by simp
  show "depletionEvent ?e ?s 110000 1 n = []"
    unfolding depletionEvent_def Let_def f m by simp
qed

lemma calculateBurnEvents_example:
  "calculateBurnEvents (exampleExternals 0 5000 suborbitalOrbit) GUIDANCE_CONFIG
     (exampleState 110000 400 1000 5000) noLatches = ([], noLatches)"
proof -
  let ?s = "exampleState 110000 400 1000 5000"
  let ?e = "exampleExternals 0 5000 suborbitalOrbit"
  have alt: "getAltitude ?e ?s = 110000"
    by (simp add: getAltitude_example EARTH_RADIUS_def)
  have a: "atmosphereLimit GUIDANCE_CONFIG \<le> getAltitude ?e ?s"
    unfolding alt by (simp add: GUIDANCE_CONFIG_def)
  have t: "time ?s < 1500" by (simp add: exampleState_def)
  have o: "predictOrbit ?e ?s = suborbitalOrbit" by (simp add: exampleExternals_def)
  have r: "retrogradeStrategy ?e GUIDANCE_CONFIG ?s suborbitalOrbit 110000 None = ([], None)"
    by (simp add: retrogradeStrategy_def Let_def suborbitalOrbit_def GUIDANCE_CONFIG_def)
  show ?thesis
    unfolding calculateBurnEvents_vacuum [OF a] Let_def o alt traditionalStrategy_early [OF t]
    by (simp add: noLatches_def r)
qed

text \<open>
  Claim C7. The claim bounds every returned event, the Orbit event included, by the
  10000 s horizon. The source tests the time to 150 km against the horizon and then
  pushes the larger of that time and the time to burnout, which it does not test. With
  the second stage burning 60000 kg at 3 kg/s, 110 km up and 160/3 s from the 150 km
  mark, the only forecast is Orbit in 20000 s, and \<open>getNextEvent\<close> returns it.
\<close>

theorem orbit_event_beyond_horizon:
  "getNextEvent (exampleExternals 0 5000 suborbitalOrbit) GUIDANCE_CONFIG
     (exampleState 110000 400 1000 5000) noLatches
   = (Some (plainEvent 20000 ''Orbit''), noLatches)
   \<and> \<not> time_ev (plainEvent 20000 ''Orbit'') \<le> 10000"
proof -
  let ?s = "exampleState 110000 400 1000 5000"
  let ?e = "exampleExternals 0 5000 suborbitalOrbit"
  have alt: "getAltitude ?e ?s = 110000"
    by (simp add: getAltitude_example EARTH_RADIUS_def)
  have f: "time ?s = 400" "fairingJettisoned ?s" by (simp_all add: exampleState_def)
  have "forecastEvents ?e GUIDANCE_CONFIG ?s noLatches
          = ([plainEvent 20000 ''Orbit''], noLatches)"
    unfolding forecastEvents_def Let_def alt orbitEvent_example depletionEvent_example
      calculateBurnEvents_example
    by (simp add: KARMAN_LINE_def f)
  then show ?thesis by (simp add: getNextEvent_def plainEvent_def)
qed

theorem orbit_event_beyond_horizon_witness:
  "(case fst (getNextEvent (exampleExternals 0 5000 suborbitalOrbit) GUIDANCE_CONFIG
               (exampleState 110000 400 1000 5000) noLatches) of
      None \<Rightarrow> False
    | Some e \<Rightarrow> name_ev e = ''Orbit'' \<and> time_ev e = 20000)"
  using orbit_event_beyond_horizon by (simp add: plainEvent_def)

section \<open>The two singular points\<close>

text \<open>
  The true anomaly lies in \<open>[0, 2\<pi>]\<close>, and there the half-angle tangent has its only
  pole at \<open>\<pi>\<close>.
\<close>

lemma trueAnomaly_range:
  assumes "- 1 \<le> c" "c \<le> 1"
  shows "0 \<le> trueAnomaly c s \<and> trueAnomaly c s \<le> 2 * pi"
  using arccos_lbound [OF assms] arccos_ubound [OF assms]
  by (auto simp: trueAnomaly_def Let_def)

lemma half_angle_pole:
  assumes "0 \<le> theta" "theta \<le> 2 * pi"
  shows "cos (theta / 2) = 0 \<longleftrightarrow> theta = pi"
proof
  assume z: "cos (theta / 2) = 0"
  have "theta / 2 = pi / 2"
  proof (rule cos_inj_pi)
    show "0 \<le> theta / 2" using assms(1) by simp
    show "theta / 2 \<le> pi" using assms(2) by simp
    show "0 \<le> pi / 2" by simp
    show "pi / 2 \<le> pi" by simp
    show "cos (theta / 2) = cos (pi / 2)" unfolding z by (simp only: cos_pi_half)
  qed
  then show "theta = pi" by simp
next
  assume "theta = pi"
  then show "cos (theta / 2) = 0" by simp
qed

lemma eccentricAnomaly_pi: "eccentricAnomaly e pi = pi"
  by (simp add: eccentricAnomaly_def)

lemma trueAnomaly_apoapsis: "trueAnomaly (- 1) s = pi"
  by (simp add: trueAnomaly_def Let_def)

text \<open>
  At or beyond the predicted apoapsis radius of an eccentric closed orbit the cosine is
  clamped to \<open>-1\<close>: the time to apoapsis is \<open>0\<close> and the time to periapsis half a
  period.
\<close>

lemma time_solvers_at_apoapsis:
  assumes "\<not> isEscape orb" "1 / 1000000 \<le> eccentricity orb" "eccentricity orb < 1"
      and "0 < semiMajorAxis orb"
      and "(semiMajorAxis orb * (1 - eccentricity orb * eccentricity orb) / radius s - 1)
             / eccentricity orb \<le> - 1"
  shows "calculateTimeToApoapsis orb s mu = Finite 0
       \<and> calculateTimeToPeriapsis orb s mu
           = Finite (2 * pi * sqrt (semiMajorAxis orb ^ 3 / mu) / 2)"
proof -
  let ?c = "(semiMajorAxis orb * (1 - eccentricity orb * eccentricity orb) / radius s - 1)
             / eccentricity orb"
  have c: "max (- 1) (min 1 ?c) = - 1" using assms(5) by simp
  have c': "max (- 1) (min 1 (if \<bar>?c\<bar> > 1.001 then max (- 1) (min 1 ?c) else ?c)) = - 1"
    using assms(5) by simp
  have g: "\<not> (isEscape orb \<or> eccentricity orb \<ge> 1 \<or> semiMajorAxis orb \<le> 0)"
    "\<not> eccentricity orb < 1 / 1000000"
    using assms by auto
  have a: "calculateTimeToApoapsis orb s mu = Finite 0"
    unfolding calculateTimeToApoapsis_def Let_def c'
    by (simp only: g if_False trueAnomaly_apoapsis eccentricAnomaly_pi) simp
  have p: "calculateTimeToPeriapsis orb s mu
             = Finite (orbitalPeriod (semiMajorAxis orb) mu / 2)"
    unfolding calculateTimeToPeriapsis_def Let_def c
    by (simp only: g if_False trueAnomaly_apoapsis eccentricAnomaly_pi) simp
  show ?thesis using a p by (simp add: orbitalPeriod_def power3_eq_cube)
qed

text \<open>
  A vehicle at rest in the atmospheric ascent, 66.5 km up: the flight-path angle is 0,
  the natural turn rate is infinite and no turn-rate correction is made. The pitch is
  30 percent of the altitude floor of 17.8 degrees plus the 15 degrees of the
  vertical-velocity guard.
\<close>

lemma flightPathAngle_at_rest:
  "- EARTH_RADIUS < alt \<Longrightarrow> flightPathAngle (exampleState alt t 0 0) = 0"
  by (simp add: flightPathAngle_def vVertical_exampleState vHorizontal_exampleState atan2_def)

lemma speed_at_rest: "speed (exampleState alt t 0 0) = 0"
  by (simp add: speed_def exampleState_def)

lemma atmosphericAscentPitch_at_rest_example:
  "atmosphericAscentPitch (exampleExternals 0.0001 0 suborbitalOrbit) GUIDANCE_CONFIG
     (exampleState 66500 200 0 0) 0.1 resetGuidance 66500 = 20.34"
proof -
  let ?s = "exampleState 66500 200 0 0"
  have f: "flightPathAngle ?s = 0"
    by (rule flightPathAngle_at_rest) (simp add: EARTH_RADIUS_def)
  have v: "vVertical ?s = 0"
    by (simp add: vVertical_exampleState EARTH_RADIUS_def)
  have g: "getGravity (exampleExternals 0.0001 0 suborbitalOrbit) r = 9.375" for r
    by (simp add: exampleExternals_def)
  show ?thesis
    unfolding atmosphericAscentPitch_def Let_def f v g speed_at_rest
    by (simp add: GUIDANCE_CONFIG_def resetGuidance_def)
qed

end
